theory Spec2Isabelle
  imports Complex_Main
begin

section \<open>JavaScript values\<close>

text \<open>
  The values that cross the generation backend are what \<open>JSON.parse\<close> returns. An object
  is the list of its own properties in insertion order; a parsed object has each key once.
  A property that is absent reads as \<open>undefined\<close>, modelled by \<open>None\<close>.
\<close>

datatype json =
    JNull
  | JBool bool
  | JNum rat
  | JStr string
  | JArr "json list"
  | JObj "(string \<times> json) list"

fun truthy :: "json \<Rightarrow> bool" where
  "truthy JNull = False"
| "truthy (JBool b) = b"
| "truthy (JNum n) = (n \<noteq> 0)"
| "truthy (JStr s) = (s \<noteq> [])"
| "truthy (JArr xs) = True"
| "truthy (JObj kvs) = True"

text \<open>Truthiness of a value that may be \<open>undefined\<close>, and of an optional string.\<close>

definition truthy_opt :: "json option \<Rightarrow> bool" where
  "truthy_opt v = (case v of None \<Rightarrow> False | Some x \<Rightarrow> truthy x)"

definition present :: "string option \<Rightarrow> bool" where
  "present v = (case v of None \<Rightarrow> False | Some s \<Rightarrow> s \<noteq> [])"

text \<open>
  \<open>v.k\<close> for a name \<open>k\<close> that is no built-in property, on a value that is not \<open>null\<close>
  (reading a property of \<open>null\<close> throws; the callers below test for it first).
\<close>

definition get_prop :: "json \<Rightarrow> string \<Rightarrow> json option" where
  "get_prop v k = (case v of JObj kvs \<Rightarrow> map_of kvs k | _ \<Rightarrow> None)"

text \<open>\<open>v[0]\<close> on a value that is not \<open>null\<close>.\<close>

definition first_elem :: "json \<Rightarrow> json option" where
  "first_elem v =
     (case v of
        JArr xs \<Rightarrow> (case xs of [] \<Rightarrow> None | x # _ \<Rightarrow> Some x)
      | JStr s \<Rightarrow> (case s of [] \<Rightarrow> None | c # _ \<Rightarrow> Some (JStr [c]))
      | JObj kvs \<Rightarrow> map_of kvs ''0''
      | _ \<Rightarrow> None)"

text \<open>Decimal rendering of an index, for the keys that spreading an array or a string creates.\<close>

fun digit_char :: "nat \<Rightarrow> char" where
  "digit_char n = char_of (48 + n mod 10)"

fun show_nat :: "nat \<Rightarrow> string" where
  "show_nat n = (if n < 10 then [digit_char n] else show_nat (n div 10) @ [digit_char n])"

declare show_nat.simps [simp del]

fun indexed :: "nat \<Rightarrow> json list \<Rightarrow> (string \<times> json) list" where
  "indexed i [] = []"
| "indexed i (x # xs) = (show_nat i, x) # indexed (Suc i) xs"

text \<open>\<open>{...v}\<close>: the own enumerable properties of \<open>v\<close>; none for \<open>null\<close>, numbers and booleans.\<close>

definition spread :: "json \<Rightarrow> (string \<times> json) list" where
  "spread v =
     (case v of
        JObj kvs \<Rightarrow> kvs
      | JArr xs \<Rightarrow> indexed 0 xs
      | JStr s \<Rightarrow> indexed 0 (map (\<lambda>c. JStr [c]) s)
      | _ \<Rightarrow> [])"

text \<open>Writing one property: an existing key keeps its place, a new key goes last.\<close>

fun set_prop :: "(string \<times> json) list \<Rightarrow> string \<Rightarrow> json \<Rightarrow> (string \<times> json) list" where
  "set_prop [] k v = [(k, v)]"
| "set_prop ((k', v') # kvs) k v =
     (if k' = k then (k, v) # kvs else (k', v') # set_prop kvs k v)"

fun set_props :: "(string \<times> json) list \<Rightarrow> (string \<times> json) list \<Rightarrow> (string \<times> json) list" where
  "set_props kvs [] = kvs"
| "set_props kvs ((k, v) # kvs') = set_props (set_prop kvs k v) kvs'"

section \<open>AG2MusicGenerator: the four-agent generation backend\<close>

text \<open>
  Each agent makes one chat-completion call and parses the reply. \<open>Inr v\<close> is the parsed
  reply, \<open>Inl msg\<close> an exception of the call or of \<open>JSON.parse\<close>. The two clock readings
  are inputs as well.
\<close>

record agent_replies =
  analyst_reply :: "string + json"
  composer_reply :: "string + json"
  specialist_reply :: "string + json"
  director_reply :: "string + json"
  clock_iso :: string
  clock_ms :: int

record transcription =
  tr_text :: string
  tr_duration :: rat
  tr_segments :: "json list"
  tr_confidence :: rat

definition runMusicAnalyst :: "agent_replies \<Rightarrow> json \<Rightarrow> json" where
  "runMusicAnalyst env musicalAnalysis =
     (case analyst_reply env of
        Inr analysis \<Rightarrow> analysis
      | Inl msg \<Rightarrow>
          JObj (set_props (spread musicalAnalysis)
            [(''scale'', JStr ''major''),
             (''rhythmicPattern'', JStr ''steady four-four''),
             (''melodicHints'', JStr ''vocal melody detected''),
             (''confidence'', JNum (6 / 10))]))"

definition default_chordNotes :: json where
  "default_chordNotes =
     JObj [(''C'', JArr [JStr ''C4'', JStr ''E4'', JStr ''G4'']),
           (''Am'', JArr [JStr ''A3'', JStr ''C4'', JStr ''E4'']),
           (''F'', JArr [JStr ''F3'', JStr ''A3'', JStr ''C4'']),
           (''G'', JArr [JStr ''G3'', JStr ''B3'', JStr ''D4''])]"

definition default_progression :: json where
  "default_progression = JArr [JStr ''C'', JStr ''Am'', JStr ''F'', JStr ''G'']"

definition runChordComposer :: "agent_replies \<Rightarrow> json \<Rightarrow> json" where
  "runChordComposer env analysis =
     (case composer_reply env of
        Inr chords \<Rightarrow> chords
      | Inl msg \<Rightarrow>
          JObj [(''primaryProgression'', default_progression),
                (''chordNotes'', default_chordNotes),
                (''timing'', JStr ''whole notes'')])"

text \<open>
  \<open>analysis.genres && analysis.genres[0] ? analysis.genres[0] : 'pop'\<close>, evaluated before
  the agent's own \<open>try\<close>: it throws a TypeError when \<open>analysis\<close> is \<open>null\<close>.
\<close>

definition primaryGenre :: "json \<Rightarrow> string + json" where
  "primaryGenre analysis =
     (if analysis = JNull then Inl ''Cannot read properties of null''
      else (case get_prop analysis ''genres'' of
              None \<Rightarrow> Inr (JStr ''pop'')
            | Some genres \<Rightarrow>
               (if \<not> truthy genres then Inr (JStr ''pop'')
                else (case first_elem genres of
                        None \<Rightarrow> Inr (JStr ''pop'')
                      | Some g \<Rightarrow> (if truthy g then Inr g else Inr (JStr ''pop''))))))"

definition runGenreSpecialist :: "agent_replies \<Rightarrow> json \<Rightarrow> json \<Rightarrow> string + json" where
  "runGenreSpecialist env chordProgression analysis =
     (case primaryGenre analysis of
        Inl e \<Rightarrow> Inl e
      | Inr g \<Rightarrow>
         (case specialist_reply env of
            Inr genre \<Rightarrow> Inr genre
          | Inl msg \<Rightarrow>
              Inr (JObj [(''primaryGenre'', g),
                         (''instrumentation'',
                            JObj [(''drums'', JStr ''acoustic drum kit''),
                                  (''bass'', JStr ''electric bass''),
                                  (''chords'', JStr ''piano''),
                                  (''melody'', JStr ''synth lead'')]),
                         (''rhythmPattern'', JStr ''steady four-four'')])))"

definition runArrangementDirector :: "agent_replies \<Rightarrow> json \<Rightarrow> json \<Rightarrow> json" where
  "runArrangementDirector env genreAdaptation analysis =
     (case director_reply env of
        Inr arrangement \<Rightarrow> arrangement
      | Inl msg \<Rightarrow>
          JObj [(''finalInstrumentation'',
                   JObj [(''drums'', JStr ''acoustic kit''),
                         (''bass'', JStr ''electric bass''),
                         (''chords'', JStr ''piano''),
                         (''melody'', JStr ''synth lead'')]),
                (''mixLevels'',
                   JObj [(''drums'', JNum (8 / 10)),
                         (''bass'', JNum (7 / 10)),
                         (''chords'', JNum (6 / 10)),
                         (''melody'', JNum (9 / 10))])])"

definition getFallbackMusicData :: "agent_replies \<Rightarrow> json \<Rightarrow> transcription \<Rightarrow> json" where
  "getFallbackMusicData env musicalAnalysis tr =
     JObj [(''analysis'',
              JObj (set_props (spread musicalAnalysis)
                [(''confidence'', JNum (5 / 10)), (''source'', JStr ''fallback'')])),
           (''chords'',
              JObj [(''primaryProgression'', default_progression),
                    (''chordNotes'', default_chordNotes)]),
           (''genre'',
              JObj [(''primaryGenre'', JStr ''pop''),
                    (''instrumentation'',
                       JObj [(''drums'', JStr ''acoustic kit''),
                             (''bass'', JStr ''electric bass''),
                             (''chords'', JStr ''piano''),
                             (''melody'', JStr ''clean guitar'')])]),
           (''arrangement'',
              JObj [(''structure'',
                       JArr [JStr ''intro'', JStr ''verse'', JStr ''chorus'', JStr ''outro'']),
                    (''mixLevels'',
                       JObj [(''drums'', JNum (8 / 10)),
                             (''bass'', JNum (7 / 10)),
                             (''chords'', JNum (6 / 10)),
                             (''melody'', JNum (9 / 10))])]),
           (''lyrics'', JStr (tr_text tr)),
           (''generatedAt'', JStr (clock_iso env))]"

text \<open>
  The body of the outer \<open>try\<close>: the opening log line reads \<open>musicalAnalysis.tempo\<close>, which
  throws when the analysis is \<open>null\<close>; of the four agents only the genre specialist has
  code outside its own \<open>try\<close> that can throw.
\<close>

definition generateMusic_try :: "agent_replies \<Rightarrow> json \<Rightarrow> transcription \<Rightarrow> string + json" where
  "generateMusic_try env musicalAnalysis tr =
     (if musicalAnalysis = JNull then Inl ''Cannot read properties of null''
      else
        let enhancedAnalysis = runMusicAnalyst env musicalAnalysis;
            chordProgression = runChordComposer env enhancedAnalysis
        in case runGenreSpecialist env chordProgression enhancedAnalysis of
             Inl e \<Rightarrow> Inl e
           | Inr genreAdaptation \<Rightarrow>
               let finalArrangement = runArrangementDirector env genreAdaptation enhancedAnalysis
               in Inr (JObj [(''analysis'', enhancedAnalysis),
                             (''chords'', chordProgression),
                             (''genre'', genreAdaptation),
                             (''arrangement'', finalArrangement),
                             (''generatedAt'', JStr (clock_iso env)),
                             (''processingTime'', JNum (of_int (clock_ms env)))]))"

definition generateMusic :: "agent_replies \<Rightarrow> json \<Rightarrow> transcription \<Rightarrow> json" where
  "generateMusic env musicalAnalysis tr =
     (case generateMusic_try env musicalAnalysis tr of
        Inr result \<Rightarrow> result
      | Inl e \<Rightarrow> getFallbackMusicData env musicalAnalysis tr)"

section \<open>The database tables the core reads and writes\<close>

text \<open>
  Only the columns that the core reads or writes are kept. A column that takes a JavaScript
  value as its parameter keeps that value; \<open>NULL\<close> is \<open>None\<close>. Every \<open>db.query\<close> either
  throws, which the caller's environment record decides, or acts on the tables.
\<close>

record user_row =
  user_id :: string
  email :: string
  user_name :: string
  phone :: "string option"
  pin :: string
  is_active :: "bool option"
  last_login :: "nat option"

record session_row =
  session_id :: string
  session_user_id :: "string option"
  session_call_sid :: "json option"
  processing_status :: string

record call_log =
  log_phone_number :: "string option"
  log_call_sid :: "string option"
  log_user_id :: "string option"
  log_action :: string
  log_success :: bool
  log_error_message :: "string option"

record audio_files =
  backingTrack :: string
  midi :: string
  stemsZip :: string
  lyrics :: string
  downloadPackage :: string
  totalSize :: nat

record database =
  users :: "user_row list"
  sessions :: "session_row list"
  generated_tracks :: "(string \<times> audio_files) list"
  call_logs :: "call_log list"

text \<open>SQL equality: never true when a side is \<open>NULL\<close>.\<close>

definition sql_eq :: "'a option \<Rightarrow> 'a option \<Rightarrow> bool" where
  "sql_eq a b = (case a of None \<Rightarrow> False | Some x \<Rightarrow> (case b of None \<Rightarrow> False | Some y \<Rightarrow> x = y))"

definition bound_value :: "json option \<Rightarrow> json option" where
  "bound_value v = (case v of Some JNull \<Rightarrow> None | _ \<Rightarrow> v)"

section \<open>AudioProcessor: the generation pipeline\<close>

record audio_file =
  file_path :: string
  file_size :: nat
  file_name :: string

text \<open>
  What the external calls of one pipeline run return. \<open>Inl msg\<close> and \<open>Some msg\<close> are
  exceptions with that message. \<open>FileManager\<close>, \<open>SMSService\<close> and the method
  \<open>regenerateSession\<close> are used by the pipeline but are not part of the sources at hand,
  so the outcome of their one call each is an input too, and so is the outcome of
  constructing the processor (\<open>new AudioProcessor()\<close> builds the API clients) and of loading
  and constructing the SMS service.
\<close>

record pipeline_env =
  construct_processor :: "string option"
  download_audio :: "string + audio_file"
  file_access :: "string option"
  whisper :: "string + transcription"
  analysis_reply :: "string + json"
  insert_session :: "string + string"
  agents :: agent_replies
  generate_audio_files :: "string \<Rightarrow> json \<Rightarrow> string + audio_files"
  update_completed :: "string option"
  insert_tracks :: "string option"
  sms_service :: "string option"
  send_download_links :: "string option"
  regenerate_result :: "string + audio_files"

record processing_result =
  result_sessionId :: string
  result_success :: bool
  result_files :: audio_files

datatype effect =
    Emit string string "(string \<times> json) list"
  | DownloadLinksSMS string string
  | SendSMS string string

definition downloadAudio :: "pipeline_env \<Rightarrow> string + audio_file" where
  "downloadAudio env =
     (case download_audio env of
        Inr f \<Rightarrow> Inr f
      | Inl msg \<Rightarrow> Inl (''Failed to download audio: '' @ msg))"

definition validateAudioFile :: "nat \<Rightarrow> pipeline_env \<Rightarrow> audio_file \<Rightarrow> string + bool" where
  "validateAudioFile maxSize env audioFile =
     (if file_size audioFile > maxSize then Inl ''Audio file too large''
      else if file_size audioFile < 1000 then Inl ''Audio file too small or corrupted''
      else case file_access env of
             Some msg \<Rightarrow> Inl ''Audio file is not accessible''
           | None \<Rightarrow> Inr True)"

definition transcribeAudio :: "pipeline_env \<Rightarrow> string + transcription" where
  "transcribeAudio env =
     (case whisper env of
        Inr t \<Rightarrow> Inr t
      | Inl msg \<Rightarrow> Inl (''Transcription failed: '' @ msg))"

definition analyzeMusicalElements :: "pipeline_env \<Rightarrow> json" where
  "analyzeMusicalElements env =
     (case analysis_reply env of
        Inr analysis \<Rightarrow> analysis
      | Inl msg \<Rightarrow>
          JObj [(''tempo'', JNum 120),
                (''key'', JStr ''C''),
                (''mood'', JArr [JStr ''neutral'']),
                (''genres'', JArr [JStr ''pop'']),
                (''structure'', JStr ''verse-chorus''),
                (''energy'', JNum 5),
                (''confidence'', JNum (3 / 10)),
                (''reasoning'', JStr ''Default values used due to analysis failure'')])"

text \<open>
  The session data is \<open>{callSid, audioUrl, audioFile, lyrics, duration, ...analysis}\<close>: the
  analysis is spread last, so a key of the analysis replaces a key written before it.
\<close>

definition opt_str :: "string option \<Rightarrow> (string \<times> json) list \<Rightarrow> string \<Rightarrow> (string \<times> json) list" where
  "opt_str v kvs k = (case v of None \<Rightarrow> kvs | Some s \<Rightarrow> kvs @ [(k, JStr s)])"

definition sessionData :: "string option \<Rightarrow> string option \<Rightarrow> audio_file \<Rightarrow> transcription \<Rightarrow> json
    \<Rightarrow> (string \<times> json) list" where
  "sessionData callSid recordingUrl audioFile tr analysis =
     set_props
       (opt_str recordingUrl (opt_str callSid [] ''callSid'') ''audioUrl''
          @ [(''audioFile'', JStr (file_path audioFile)),
             (''lyrics'', JStr (tr_text tr)),
             (''duration'', JNum (tr_duration tr))])
       (spread analysis)"

definition createSession :: "pipeline_env \<Rightarrow> database \<Rightarrow> string option \<Rightarrow> (string \<times> json) list
    \<Rightarrow> (string + string) \<times> database" where
  "createSession env db userId sData =
     (case insert_session env of
        Inl msg \<Rightarrow> (Inl (''Failed to create session: '' @ msg), db)
      | Inr sid \<Rightarrow>
          (Inr sid,
           db\<lparr>sessions := sessions db @
              [\<lparr>session_id = sid, session_user_id = userId,
                session_call_sid = bound_value (map_of sData ''callSid''),
                processing_status = ''processing''\<rparr>]\<rparr>))"

definition set_status :: "string \<Rightarrow> session_row \<Rightarrow> session_row" where
  "set_status st r = r\<lparr>processing_status := st\<rparr>"

definition mark_completed :: "string \<Rightarrow> database \<Rightarrow> database" where
  "mark_completed sid db =
     db\<lparr>sessions :=
          map (\<lambda>r. if session_id r = sid then set_status ''completed'' r else r) (sessions db)\<rparr>"

definition add_tracks :: "string \<Rightarrow> audio_files \<Rightarrow> database \<Rightarrow> database" where
  "add_tracks sid audioFiles db =
     db\<lparr>generated_tracks := generated_tracks db @ [(sid, audioFiles)]\<rparr>"

definition saveResults :: "pipeline_env \<Rightarrow> database \<Rightarrow> string \<Rightarrow> audio_files
    \<Rightarrow> (string + unit) \<times> database" where
  "saveResults env db sid audioFiles =
     (case update_completed env of
        Some msg \<Rightarrow> (Inl (''Failed to save results: '' @ msg), db)
      | None \<Rightarrow>
         (case insert_tracks env of
            Some msg \<Rightarrow> (Inl (''Failed to save results: '' @ msg), mark_completed sid db)
          | None \<Rightarrow> (Inr (), add_tracks sid audioFiles (mark_completed sid db))))"

text \<open>
  \<open>sendSMSNotification\<close> loads and constructs the SMS service, then calls it inside a \<open>try\<close>
  whose handler only logs: an exception of the call is dropped, one of the construction is
  not.
\<close>

definition sendSMSNotification :: "pipeline_env \<Rightarrow> string \<Rightarrow> string \<Rightarrow> (string + unit) \<times> effect list" where
  "sendSMSNotification env phoneNumber sid =
     (case sms_service env of
        Some msg \<Rightarrow> (Inl msg, [])
      | None \<Rightarrow>
         (case send_download_links env of
            Some msg \<Rightarrow> (Inr (), [DownloadLinksSMS phoneNumber sid])
          | None \<Rightarrow> (Inr (), [DownloadLinksSMS phoneNumber sid])))"

text \<open>Step 9: \<open>if (phoneNumber) await this.sendSMSNotification(...)\<close>\<close>

definition notify_user :: "pipeline_env \<Rightarrow> string option \<Rightarrow> string \<Rightarrow> (string + unit) \<times> effect list" where
  "notify_user env phoneNumber sid =
     (case phoneNumber of
        None \<Rightarrow> (Inr (), [])
      | Some p \<Rightarrow> if p = [] then (Inr (), []) else sendSMSNotification env p sid)"

text \<open>
  Steps 6 to 9, once the session record exists. The removal of the temporary file that
  follows cannot throw and changes nothing that is modelled.
\<close>

definition generate_and_save :: "pipeline_env \<Rightarrow> database \<Rightarrow> string \<Rightarrow> json \<Rightarrow> transcription
    \<Rightarrow> string option \<Rightarrow> (string + processing_result) \<times> database \<times> effect list" where
  "generate_and_save env db sid analysis tr phoneNumber =
     (let generatedMusic = generateMusic (agents env) analysis tr in
      case generate_audio_files env sid generatedMusic of
        Inl e \<Rightarrow> (Inl e, db, [])
      | Inr audioFiles \<Rightarrow>
         (case saveResults env db sid audioFiles of
            (Inl e, db2) \<Rightarrow> (Inl e, db2, [])
          | (Inr u, db2) \<Rightarrow>
             (case notify_user env phoneNumber sid of
                (Inl e, fx) \<Rightarrow> (Inl e, db2, fx)
              | (Inr u, fx) \<Rightarrow>
                  (Inr \<lparr>result_sessionId = sid, result_success = True, result_files = audioFiles\<rparr>,
                   db2, fx))))"

text \<open>Steps 3 to 5, once the audio file is on disk and valid.\<close>

definition transcribe_and_record :: "pipeline_env \<Rightarrow> database \<Rightarrow> string option \<Rightarrow> string option
    \<Rightarrow> string option \<Rightarrow> string option \<Rightarrow> audio_file
    \<Rightarrow> (string + processing_result) \<times> database \<times> effect list" where
  "transcribe_and_record env db userId recordingUrl callSid phoneNumber audioFile =
     (case transcribeAudio env of
        Inl e \<Rightarrow> (Inl e, db, [])
      | Inr tr \<Rightarrow>
         (let analysis = analyzeMusicalElements env in
          case createSession env db userId
                 (sessionData callSid recordingUrl audioFile tr analysis) of
            (Inl e, db1) \<Rightarrow> (Inl e, db1, [])
          | (Inr sid, db1) \<Rightarrow> generate_and_save env db1 sid analysis tr phoneNumber))"

definition processRecording :: "nat \<Rightarrow> pipeline_env \<Rightarrow> database \<Rightarrow> string option \<Rightarrow> string option
    \<Rightarrow> string option \<Rightarrow> string option \<Rightarrow> (string + processing_result) \<times> database \<times> effect list" where
  "processRecording maxSize env db userId recordingUrl callSid phoneNumber =
     (case downloadAudio env of
        Inl e \<Rightarrow> (Inl e, db, [])
      | Inr audioFile \<Rightarrow>
         (case validateAudioFile maxSize env audioFile of
            Inl e \<Rightarrow> (Inl e, db, [])
          | Inr ok \<Rightarrow>
              transcribe_and_record env db userId recordingUrl callSid phoneNumber audioFile))"

section \<open>ProcessingService: the job queue\<close>

datatype job_type = process_recording | regenerate_session

datatype job_status = Queued | Processing | Failed | Retrying | Completed

text \<open>
  A job object. Its timestamps and the recording's duration are left out: they are stored
  and logged, and no decision reads them.
\<close>

record job =
  job_id :: string
  jtype :: job_type
  userId :: "string option"
  callSid :: "string option"
  recordingUrl :: "string option"
  recordingSid :: "string option"
  phoneNumber :: "string option"
  sessionId :: "string option"
  originalAudioUrl :: "string option"
  options :: "json option"
  status :: job_status
  attempts :: nat
  maxAttempts :: nat
  lastError :: "string option"

record recording_data =
  d_userId :: "string option"
  d_callSid :: "string option"
  d_recordingUrl :: "string option"
  d_recordingSid :: "string option"
  d_phoneNumber :: "string option"

record regeneration_data =
  r_sessionId :: "string option"
  r_userId :: "string option"
  r_originalAudioUrl :: "string option"
  r_options :: "json option"

text \<open>
  Settings read from the configuration module and from the process: the size limit of a
  recording, whether the socket server object is there, the sender number for SMS, the run
  mode and the token that signs webhooks.
\<close>

record config =
  audio_maxSize :: nat
  io_present :: bool
  twilio_phoneNumber :: "string option"
  NODE_ENV :: "string option"
  twilio_authToken :: "string option"

text \<open>
  The worker loop is an \<open>async\<close> function: it runs until it awaits an external call and is
  resumed when that call settles. A suspended activation of \<open>processQueue\<close> holds the job
  it shifted off the queue, either inside \<open>processJob\<close> or inside \<open>handleJobFailure\<close>.
\<close>

datatype worker = InPipeline job | InFailureHandler job

text \<open>
  The two static fields of the class, the suspended activations of the loop, the job objects
  the loop has let go of (their creator still holds them), the database, and what went out
  over the socket server and as SMS.
\<close>

record service =
  processingQueue :: "job list"
  isProcessing :: bool
  workers :: "worker list"
  settled :: "job list"
  db :: database
  outbox :: "effect list"

definition initial :: "database \<Rightarrow> service" where
  "initial d = \<lparr>processingQueue = [], isProcessing = False, workers = [], settled = [],
                 db = d, outbox = []\<rparr>"

definition new_recording_job :: "recording_data \<Rightarrow> string \<Rightarrow> job" where
  "new_recording_job d ident =
     \<lparr>job_id = ident, jtype = process_recording, userId = d_userId d, callSid = d_callSid d,
      recordingUrl = d_recordingUrl d, recordingSid = d_recordingSid d,
      phoneNumber = d_phoneNumber d, sessionId = None,
      originalAudioUrl = None, options = None,
      status = Queued, attempts = 0, maxAttempts = 3, lastError = None\<rparr>"

definition new_regeneration_job :: "regeneration_data \<Rightarrow> string \<Rightarrow> job" where
  "new_regeneration_job d ident =
     \<lparr>job_id = ident, jtype = regenerate_session, userId = r_userId d, callSid = None,
      recordingUrl = None, recordingSid = None, phoneNumber = None,
      sessionId = r_sessionId d, originalAudioUrl = r_originalAudioUrl d,
      options = r_options d,
      status = Queued, attempts = 0, maxAttempts = 3, lastError = None\<rparr>"

definition type_name :: "job_type \<Rightarrow> string" where
  "type_name t = (case t of process_recording \<Rightarrow> ''process_recording''
                          | regenerate_session \<Rightarrow> ''regenerate_session'')"

definition or_else :: "string option \<Rightarrow> string option \<Rightarrow> string option" where
  "or_else a b = (if present a then a else b)"

text \<open>
  A property of a payload whose value may be \<open>undefined\<close>: such a property is not sent, so
  it is left out of the payload.
\<close>

definition opt_field :: "string \<Rightarrow> string option \<Rightarrow> (string \<times> json) list" where
  "opt_field k v = (case v of None \<Rightarrow> [] | Some s \<Rightarrow> [(k, JStr s)])"

definition files_json :: "audio_files \<Rightarrow> json" where
  "files_json f =
     JObj [(''backingTrack'', JStr (backingTrack f)), (''midi'', JStr (midi f)),
           (''stemsZip'', JStr (stemsZip f)), (''lyrics'', JStr (lyrics f)),
           (''downloadPackage'', JStr (downloadPackage f)),
           (''totalSize'', JNum (of_nat (totalSize f)))]"

text \<open>\<open>if (io && job.userId) io.to(`user_${job.userId}`).emit(name, payload)\<close>\<close>

definition emit_to_user :: "config \<Rightarrow> string option \<Rightarrow> string \<Rightarrow> (string \<times> json) list \<Rightarrow> effect list" where
  "emit_to_user cfg uid name payload =
     (case uid of
        None \<Rightarrow> []
      | Some u \<Rightarrow> if io_present cfg \<and> u \<noteq> [] then [Emit (''user_'' @ u) name payload] else [])"

text \<open>\<open>processJob\<close> up to its first \<open>await\<close>.\<close>

definition processJob_begin :: "config \<Rightarrow> job \<Rightarrow> job \<times> effect list" where
  "processJob_begin cfg job =
     (job\<lparr>status := Processing\<rparr>,
      emit_to_user cfg (userId job) ''processing_started''
        ([(''jobId'', JStr (job_id job))]
         @ opt_field ''sessionId'' (or_else (sessionId job) (callSid job))
         @ [(''type'', JStr (type_name (jtype job)))]))"

text \<open>
  The rest of \<open>processJob\<close> up to the end of the awaited pipeline call: the processor is
  constructed, then the call goes by job type.
\<close>

definition run_pipeline :: "config \<Rightarrow> pipeline_env \<Rightarrow> database \<Rightarrow> job
    \<Rightarrow> (string + processing_result) \<times> database \<times> effect list" where
  "run_pipeline cfg env d job =
     (case construct_processor env of
        Some msg \<Rightarrow> (Inl msg, d, [])
      | None \<Rightarrow>
         (case jtype job of
            process_recording \<Rightarrow>
              processRecording (audio_maxSize cfg) env d (userId job) (recordingUrl job)
                (callSid job) (phoneNumber job)
          | regenerate_session \<Rightarrow>
             (case regenerate_result env of
                Inl e \<Rightarrow> (Inl e, d, [])
              | Inr files \<Rightarrow>
                  (Inr \<lparr>result_sessionId = (case sessionId job of None \<Rightarrow> [] | Some x \<Rightarrow> x),
                        result_success = True, result_files = files\<rparr>, d, []))))"

text \<open>\<open>processJob\<close> after the pipeline has returned.\<close>

definition processJob_end :: "config \<Rightarrow> job \<Rightarrow> processing_result \<Rightarrow> job \<times> effect list" where
  "processJob_end cfg job r =
     (job\<lparr>status := Completed\<rparr>,
      emit_to_user cfg (userId job) ''processing_complete''
        ([(''jobId'', JStr (job_id job))]
         @ (case jtype job of
              process_recording \<Rightarrow> [(''sessionId'', JStr (result_sessionId r))]
            | regenerate_session \<Rightarrow> opt_field ''sessionId'' (sessionId job))
         @ [(''success'', JBool True)]
         @ (case jtype job of process_recording \<Rightarrow> []
                            | regenerate_session \<Rightarrow> [(''regenerated'', JBool True)])
         @ [(''files'', files_json (result_files r))]))"

text \<open>
  The \<open>catch\<close> block of the loop up to its branch: count the attempt, mark the job failed,
  keep the message; the flag tells whether the job goes back to the queue.
\<close>

definition catch_block :: "job \<Rightarrow> string \<Rightarrow> job \<times> bool" where
  "catch_block job msg =
     (let j1 = job\<lparr>attempts := attempts job + 1, status := Failed, lastError := Some msg\<rparr>
      in if attempts j1 < maxAttempts j1 then (j1\<lparr>status := Retrying\<rparr>, True) else (j1, False))"

text \<open>
  The head of the \<open>while\<close> loop: with an empty queue the loop ends and clears the flag,
  otherwise the first job is shifted off and the activation suspends inside \<open>processJob\<close>.
\<close>

definition while_queue :: "config \<Rightarrow> service \<Rightarrow> worker option \<times> service" where
  "while_queue cfg s =
     (case processingQueue s of
        [] \<Rightarrow> (None, s\<lparr>isProcessing := False\<rparr>)
      | job # rest \<Rightarrow>
          (Some (InPipeline (fst (processJob_begin cfg job))),
           s\<lparr>processingQueue := rest, outbox := outbox s @ snd (processJob_begin cfg job)\<rparr>))"

definition drop_nth :: "nat \<Rightarrow> 'a list \<Rightarrow> 'a list" where
  "drop_nth i xs = take i xs @ drop (Suc i) xs"

definition suspend_new :: "worker option \<times> service \<Rightarrow> service" where
  "suspend_new p =
     (case fst p of None \<Rightarrow> snd p
                  | Some w \<Rightarrow> (snd p)\<lparr>workers := workers (snd p) @ [w]\<rparr>)"

definition suspend_at :: "nat \<Rightarrow> worker option \<times> service \<Rightarrow> service" where
  "suspend_at i p =
     (case fst p of None \<Rightarrow> (snd p)\<lparr>workers := drop_nth i (workers (snd p))\<rparr>
                  | Some w \<Rightarrow> (snd p)\<lparr>workers := (workers (snd p))[i := w]\<rparr>)"

definition processQueue :: "config \<Rightarrow> service \<Rightarrow> service" where
  "processQueue cfg s =
     (if isProcessing s \<or> processingQueue s = [] then s
      else suspend_new (while_queue cfg (s\<lparr>isProcessing := True\<rparr>)))"

definition push_job :: "config \<Rightarrow> job \<Rightarrow> service \<Rightarrow> service" where
  "push_job cfg job s =
     (let s1 = s\<lparr>processingQueue := processingQueue s @ [job]\<rparr>
      in if \<not> isProcessing s1 then processQueue cfg s1 else s1)"

definition queueProcessingJob :: "config \<Rightarrow> recording_data \<Rightarrow> string \<Rightarrow> service \<Rightarrow> service" where
  "queueProcessingJob cfg d ident s = push_job cfg (new_recording_job d ident) s"

definition queueRegenerationJob :: "config \<Rightarrow> regeneration_data \<Rightarrow> string \<Rightarrow> service \<Rightarrow> service" where
  "queueRegenerationJob cfg d ident s = push_job cfg (new_regeneration_job d ident) s"

definition clearQueue :: "service \<Rightarrow> service" where
  "clearQueue s = s\<lparr>processingQueue := [], isProcessing := False\<rparr>"

subsection \<open>The failure handler\<close>

text \<open>
  What the external calls of one run of \<open>handleJobFailure\<close> do: \<open>Some msg\<close> is an exception
  of the \<open>UPDATE\<close>, of the construction of the Twilio client, of its \<open>messages.create\<close>.
\<close>

record handler_env =
  update_failed :: "string option"
  twilio_client :: "string option"
  messages_create :: "string option"

datatype sms_status = Sent | Skipped | SendFailed

fun str_includes :: "string \<Rightarrow> string \<Rightarrow> bool" where
  "str_includes [] sub = (sub = [])"
| "str_includes (c # cs) sub = (take (length sub) (c # cs) = sub \<or> str_includes cs sub)"

definition sms_configured :: "config \<Rightarrow> bool" where
  "sms_configured cfg =
     (case twilio_phoneNumber cfg of
        None \<Rightarrow> False
      | Some n \<Rightarrow> n \<noteq> [] \<and> \<not> str_includes n ''xxx'')"

text \<open>\<open>TwilioService.sendSMS\<close>: it returns a status and never throws.\<close>

definition sendSMS :: "config \<Rightarrow> handler_env \<Rightarrow> string \<Rightarrow> string \<Rightarrow> (string + sms_status) \<times> effect list" where
  "sendSMS cfg henv to body =
     (if \<not> sms_configured cfg then (Inr Skipped, [])
      else (case messages_create henv of
              None \<Rightarrow> (Inr Sent, [SendSMS to body])
            | Some msg \<Rightarrow> (Inr SendFailed, [SendSMS to body])))"

definition apology :: string where
  "apology = [char_of (240::nat), char_of (159::nat), char_of (142::nat), char_of (181::nat)] @
     '' Hum It Out: Sorry, we encountered an issue processing your recording. Please try again or contact support if the problem persists.''"

definition mark_failed :: "string option \<Rightarrow> string option \<Rightarrow> database \<Rightarrow> database" where
  "mark_failed cs uid d =
     d\<lparr>sessions :=
          map (\<lambda>r. if sql_eq (session_call_sid r) (map_option JStr cs) \<and> sql_eq (session_user_id r) uid
                   then set_status ''failed'' r else r)
              (sessions d)\<rparr>"

text \<open>The awaited \<open>UPDATE sessions SET processing_status = 'failed' ...\<close>\<close>

definition update_sessions_failed :: "handler_env \<Rightarrow> job \<Rightarrow> database \<Rightarrow> string + database" where
  "update_sessions_failed henv job d =
     (case update_failed henv of
        Some msg \<Rightarrow> Inl msg
      | None \<Rightarrow> Inr (mark_failed (callSid job) (userId job) d))"

text \<open>The body of the last \<open>try\<close>: build the client, then send.\<close>

definition send_apology :: "config \<Rightarrow> handler_env \<Rightarrow> job \<Rightarrow> string + effect list" where
  "send_apology cfg henv job =
     (case phoneNumber job of
        None \<Rightarrow> Inr []
      | Some p \<Rightarrow>
         (if p = [] then Inr []
          else (case twilio_client henv of
                  Some msg \<Rightarrow> Inl msg
                | None \<Rightarrow>
                   (case fst (sendSMS cfg henv p apology) of
                      Inl e \<Rightarrow> Inl e
                    | Inr st \<Rightarrow> Inr (snd (sendSMS cfg henv p apology))))))"

definition handleJobFailure :: "config \<Rightarrow> handler_env \<Rightarrow> job \<Rightarrow> database \<Rightarrow> string + database \<times> effect list" where
  "handleJobFailure cfg henv job d =
     (let d1 = (if jtype job = process_recording
                then (case update_sessions_failed henv job d of Inl e \<Rightarrow> d | Inr d' \<Rightarrow> d')
                else d);
          notify = emit_to_user cfg (userId job) ''processing_failed''
                     ([(''jobId'', JStr (job_id job))]
                      @ opt_field ''sessionId'' (or_else (sessionId job) (callSid job))
                      @ opt_field ''error'' (lastError job));
          sms = (case send_apology cfg henv job of Inl e \<Rightarrow> [] | Inr fx \<Rightarrow> fx)
      in Inr (d1, notify @ sms))"

subsection \<open>Steps of the service\<close>

text \<open>
  Between two suspensions the code runs without interruption, so the service moves in
  steps: a call of one of the two enqueue functions, a call of \<open>clearQueue\<close>, the settling
  of the pipeline call that activation \<open>i\<close> awaits, the settling of its failure handler.
\<close>

datatype event =
    QueueProcessingJob recording_data string
  | QueueRegenerationJob regeneration_data string
  | PipelineSettles nat pipeline_env
  | FailureHandlerSettles nat handler_env
  | ClearQueue

definition after_pipeline :: "config \<Rightarrow> nat \<Rightarrow> job
    \<Rightarrow> (string + processing_result) \<times> database \<times> effect list \<Rightarrow> service \<Rightarrow> service" where
  "after_pipeline cfg i job out s =
     (let s1 = s\<lparr>db := fst (snd out), outbox := outbox s @ snd (snd out)\<rparr>
      in case fst out of
           Inr r \<Rightarrow>
             suspend_at i (while_queue cfg
               (s1\<lparr>settled := settled s1 @ [fst (processJob_end cfg job r)],
                   outbox := outbox s1 @ snd (processJob_end cfg job r)\<rparr>))
         | Inl msg \<Rightarrow>
            (if snd (catch_block job msg)
             then suspend_at i (while_queue cfg
                    (s1\<lparr>processingQueue := processingQueue s1 @ [fst (catch_block job msg)]\<rparr>))
             else s1\<lparr>workers := (workers s1)[i := InFailureHandler (fst (catch_block job msg))]\<rparr>))"

definition pipeline_settles :: "config \<Rightarrow> nat \<Rightarrow> pipeline_env \<Rightarrow> service \<Rightarrow> service option" where
  "pipeline_settles cfg i env s =
     (if i < length (workers s)
      then (case workers s ! i of
              InFailureHandler job \<Rightarrow> None
            | InPipeline job \<Rightarrow> Some (after_pipeline cfg i job (run_pipeline cfg env (db s) job) s))
      else None)"

text \<open>
  An exception of the handler would leave the loop for good with the flag still set; the
  handler has none.
\<close>

definition after_handler :: "config \<Rightarrow> nat \<Rightarrow> job \<Rightarrow> string + database \<times> effect list
    \<Rightarrow> service \<Rightarrow> service" where
  "after_handler cfg i job out s =
     (case out of
        Inl e \<Rightarrow> s\<lparr>workers := drop_nth i (workers s), settled := settled s @ [job]\<rparr>
      | Inr r \<Rightarrow>
          suspend_at i (while_queue cfg
            (s\<lparr>db := fst r, outbox := outbox s @ snd r, settled := settled s @ [job]\<rparr>)))"

definition handler_settles :: "config \<Rightarrow> nat \<Rightarrow> handler_env \<Rightarrow> service \<Rightarrow> service option" where
  "handler_settles cfg i henv s =
     (if i < length (workers s)
      then (case workers s ! i of
              InPipeline job \<Rightarrow> None
            | InFailureHandler job \<Rightarrow>
                Some (after_handler cfg i job (handleJobFailure cfg henv job (db s)) s))
      else None)"

fun step :: "config \<Rightarrow> event \<Rightarrow> service \<Rightarrow> service option" where
  "step cfg (QueueProcessingJob d ident) s = Some (queueProcessingJob cfg d ident s)"
| "step cfg (QueueRegenerationJob d ident) s = Some (queueRegenerationJob cfg d ident s)"
| "step cfg (PipelineSettles i env) s = pipeline_settles cfg i env s"
| "step cfg (FailureHandlerSettles i henv) s = handler_settles cfg i henv s"
| "step cfg ClearQueue s = Some (clearQueue s)"

fun run :: "config \<Rightarrow> event list \<Rightarrow> service \<Rightarrow> service option" where
  "run cfg [] s = Some s"
| "run cfg (e # es) s = (case step cfg e s of None \<Rightarrow> None | Some s' \<Rightarrow> run cfg es s')"

text \<open>The jobs whose status is \<open>processing\<close>, wherever the object is.\<close>

definition worker_job :: "worker \<Rightarrow> job" where
  "worker_job w = (case w of InPipeline j \<Rightarrow> j | InFailureHandler j \<Rightarrow> j)"

definition all_jobs :: "service \<Rightarrow> job list" where
  "all_jobs s = processingQueue s @ map worker_job (workers s) @ settled s"

definition processing_jobs :: "service \<Rightarrow> job list" where
  "processing_jobs s = filter (\<lambda>j. status j = Processing) (all_jobs s)"

section \<open>AuthService\<close>

record auth_env =
  select_user_fails :: "string option"
  update_login_fails :: "string option"
  now :: nat

definition is_digit :: "char \<Rightarrow> bool" where
  "is_digit c = (c \<in> set ''0123456789'')"

text \<open>\<open>/^\d{6}$/.test(s)\<close>\<close>

definition six_digits :: "string \<Rightarrow> bool" where
  "six_digits s = (length s = 6 \<and> list_all is_digit s)"

text \<open>\<open>SELECT ... FROM users WHERE pin = $1 AND is_active = true\<close>\<close>

definition active_users_with_pin :: "string \<Rightarrow> database \<Rightarrow> user_row list" where
  "active_users_with_pin p d = filter (\<lambda>u. pin u = p \<and> is_active u = Some True) (users d)"

text \<open>\<open>UPDATE users SET last_login = NOW() WHERE id = $1\<close>\<close>

definition touch_last_login :: "string \<Rightarrow> nat \<Rightarrow> database \<Rightarrow> database" where
  "touch_last_login uid t d =
     d\<lparr>users := map (\<lambda>u. if user_id u = uid then u\<lparr>last_login := Some t\<rparr> else u) (users d)\<rparr>"

text \<open>
  \<open>validatePIN\<close> returns the user row, \<open>null\<close> (\<open>None\<close>) or throws; with it come the
  database after the call and the lines written to the security log.
\<close>

definition validatePIN :: "auth_env \<Rightarrow> database \<Rightarrow> string option
    \<Rightarrow> (string + user_row option) \<times> database \<times> string list" where
  "validatePIN env d p =
     (case p of
        None \<Rightarrow> (Inl ''PIN must be exactly 6 digits'', d, [])
      | Some digits \<Rightarrow>
         (if \<not> six_digits digits then (Inl ''PIN must be exactly 6 digits'', d, [])
          else (case select_user_fails env of
                  Some msg \<Rightarrow> (Inl msg, d, [])
                | None \<Rightarrow>
                   (case active_users_with_pin digits d of
                      [] \<Rightarrow> (Inr None, d, [''Failed PIN attempt:''])
                    | user # others \<Rightarrow>
                       (case update_login_fails env of
                          Some msg \<Rightarrow> (Inl msg, d, [])
                        | None \<Rightarrow>
                            (Inr (Some user), touch_last_login (user_id user) (now env) d, []))))))"

section \<open>The telephony webhooks\<close>

record request =
  host :: "string option"
  originalUrl :: string
  signature :: "string option"
  body :: "(string \<times> string) list"
  query :: "(string \<times> string) list"

text \<open>
  What one request meets outside the code: the verdict of the provider library's
  \<open>validateRequest\<close> on (token, signature, URL, parameters), the outcome of the queries,
  and the identifier drawn for a new job.
\<close>

record http_env =
  validateRequest :: "string option \<Rightarrow> string option \<Rightarrow> string \<Rightarrow> (string \<times> string) list \<Rightarrow> bool"
  insert_call_log_fails :: "string option"
  auth :: auth_env
  update_recording_failed :: "string option"
  fresh_job_id :: string

datatype verb =
    Say string
  | Gather nat nat string string string
  | Record nat nat string string string

datatype content = Text string | Xml "verb list" | NoContent

record response =
  code :: nat
  content :: content

text \<open>The calls a handler makes to the services behind it, in order.\<close>

datatype call =
    LogCall string
  | ValidatePIN
  | QueueJob
  | RecordingFailure

definition request_url :: "request \<Rightarrow> string" where
  "request_url req =
     ''https://'' @ (case host req of None \<Rightarrow> ''undefined'' | Some h \<Rightarrow> h) @ originalUrl req"

text \<open>The middleware: \<open>None\<close> stands for \<open>next()\<close>, \<open>Some r\<close> for the response it sends itself.\<close>

definition validateTwilioSignature :: "config \<Rightarrow> http_env \<Rightarrow> request \<Rightarrow> response option" where
  "validateTwilioSignature cfg env req =
     (if NODE_ENV cfg = Some ''development'' then None
      else if validateRequest env (twilio_authToken cfg) (signature req) (request_url req) (body req)
      then None
      else Some \<lparr>code = 403, content = Text ''Invalid Twilio signature''\<rparr>)"

text \<open>\<open>TwilioService.logCall\<close>: one \<open>INSERT\<close> whose failure is logged and dropped.\<close>

definition logCall :: "http_env \<Rightarrow> string option \<Rightarrow> string option \<Rightarrow> string \<Rightarrow> bool
    \<Rightarrow> string option \<Rightarrow> string option \<Rightarrow> database \<Rightarrow> database" where
  "logCall env cs phoneNo act ok err uid d =
     (case insert_call_log_fails env of
        Some msg \<Rightarrow> d
      | None \<Rightarrow>
          d\<lparr>call_logs := call_logs d @
             [\<lparr>log_phone_number = phoneNo, log_call_sid = cs, log_user_id = uid,
               log_action = act, log_success = ok, log_error_message = err\<rparr>]\<rparr>)"

definition xml :: "verb list \<Rightarrow> response" where
  "xml vs = \<lparr>code = 200, content = Xml vs\<rparr>"

definition voice :: "http_env \<Rightarrow> request \<Rightarrow> service \<Rightarrow> response \<times> service \<times> call list" where
  "voice env req s =
     (xml [Gather 10 6 ''#'' ''/twilio/authenticate''
             ''Welcome to Hum It Out! Please enter your 6-digit PIN, followed by the pound key.'',
           Say ''I didn't receive your PIN. Please call back and try again. Goodbye!''],
      s\<lparr>db := logCall env (map_of (body req) ''CallSid'') (map_of (body req) ''From'')
                 ''incoming_call'' True None None (db s)\<rparr>,
      [LogCall ''incoming_call''])"

definition record_verb :: "string \<Rightarrow> string option \<Rightarrow> verb" where
  "record_verb uid cs =
     Record 30 5 ''trim-silence''
       (''/twilio/recording-status?userId='' @ uid @ ''&callSid=''
          @ (case cs of None \<Rightarrow> ''undefined'' | Some c \<Rightarrow> c))
       (''/twilio/recording-complete?userId='' @ uid @ ''&callSid=''
          @ (case cs of None \<Rightarrow> ''undefined'' | Some c \<Rightarrow> c))"

definition authenticate :: "http_env \<Rightarrow> request \<Rightarrow> service \<Rightarrow> response \<times> service \<times> call list" where
  "authenticate env req s =
     (let Digits = map_of (body req) ''Digits'';
          From = map_of (body req) ''From'';
          CallSid = map_of (body req) ''CallSid''
      in if \<not> present Digits \<or> \<not> six_digits (case Digits of None \<Rightarrow> [] | Some x \<Rightarrow> x)
         then (xml [Say ''Invalid PIN format. Please call back and enter a 6-digit number.''],
               s\<lparr>db := logCall env CallSid From ''pin_failure'' False
                          (Some ''Invalid PIN format'') None (db s)\<rparr>,
               [LogCall ''pin_failure''])
         else (case validatePIN (auth env) (db s) Digits of
                 (Inl msg, d, logged) \<Rightarrow>
                   (xml [Say ''Sorry, there was a technical issue during authentication. Please try again.''],
                    s\<lparr>db := logCall env CallSid From ''pin_failure'' False (Some msg) None d\<rparr>,
                    [ValidatePIN, LogCall ''pin_failure''])
               | (Inr None, d, logged) \<Rightarrow>
                   (xml [Say ''Invalid PIN. Please check your PIN and try again.''],
                    s\<lparr>db := logCall env CallSid From ''pin_failure'' False
                               (Some ''Invalid PIN'') None d\<rparr>,
                    [ValidatePIN, LogCall ''pin_failure''])
               | (Inr (Some user), d, logged) \<Rightarrow>
                   (xml [Say ''Welcome back! Start humming or singing your melody after the beep. You have 30 seconds. Go!'',
                         record_verb (user_id user) CallSid,
                         Say ''Thank you for recording. We're processing your music now!''],
                    s\<lparr>db := logCall env CallSid From ''pin_success'' True None
                               (Some (user_id user)) d\<rparr>,
                    [ValidatePIN, LogCall ''pin_success''])))"

definition recording_complete :: "config \<Rightarrow> http_env \<Rightarrow> request \<Rightarrow> service
    \<Rightarrow> response \<times> service \<times> call list" where
  "recording_complete cfg env req s =
     (case map_of (body req) ''RecordingUrl'' of
        None \<Rightarrow> (xml [Say ''There was an issue processing your recording. Please try again.''], s, [])
      | Some url \<Rightarrow>
         (if url = []
          then (xml [Say ''There was an issue processing your recording. Please try again.''], s, [])
          else
            (xml [Say ''Perfect! Your recording is being processed. You'll receive a text message with download links in about one minute. Thank you for using Hum It Out!''],
             queueProcessingJob cfg
               \<lparr>d_userId = map_of (query req) ''userId'', d_callSid = map_of (query req) ''callSid'',
                d_recordingUrl = Some (url @ ''.wav''),
                d_recordingSid = map_of (body req) ''RecordingSid'',
                d_phoneNumber = map_of (body req) ''From''\<rparr>
               (fresh_job_id env)
               (s\<lparr>db := logCall env (map_of (query req) ''callSid'') (map_of (body req) ''From'')
                           ''recording_complete'' True None (map_of (query req) ''userId'') (db s)\<rparr>),
             [LogCall ''recording_complete'', QueueJob])))"

text \<open>\<open>ProcessingService.handleRecordingFailure\<close>\<close>

definition handleRecordingFailure :: "config \<Rightarrow> http_env \<Rightarrow> string option \<Rightarrow> string option \<Rightarrow> string
    \<Rightarrow> service \<Rightarrow> service" where
  "handleRecordingFailure cfg env uid cs errorMessage s =
     s\<lparr>db := (case update_recording_failed env of
                 Some msg \<Rightarrow> db s
               | None \<Rightarrow> mark_failed cs uid (db s)),
       outbox := outbox s @
          emit_to_user cfg uid ''processing_failed''
            (opt_field ''sessionId'' cs @ [(''error'', JStr errorMessage)])\<rparr>"

definition recording_status :: "config \<Rightarrow> http_env \<Rightarrow> request \<Rightarrow> service
    \<Rightarrow> response \<times> service \<times> call list" where
  "recording_status cfg env req s =
     (if map_of (body req) ''RecordingStatus'' = Some ''failed''
      then (\<lparr>code = 200, content = NoContent\<rparr>,
            handleRecordingFailure cfg env (map_of (query req) ''userId'')
              (map_of (query req) ''callSid'') ''Recording failed'' s,
            [RecordingFailure])
      else (\<lparr>code = 200, content = NoContent\<rparr>, s, []))"

datatype route = Voice | Authenticate | RecordingComplete | RecordingStatus

text \<open>\<open>router.post(path, validateTwilioSignature, handler)\<close>\<close>

definition webhook :: "config \<Rightarrow> http_env \<Rightarrow> route \<Rightarrow> request \<Rightarrow> service
    \<Rightarrow> response \<times> service \<times> call list" where
  "webhook cfg env r req s =
     (case validateTwilioSignature cfg env req of
        Some rejected \<Rightarrow> (rejected, s, [])
      | None \<Rightarrow>
         (case r of
            Voice \<Rightarrow> voice env req s
          | Authenticate \<Rightarrow> authenticate env req s
          | RecordingComplete \<Rightarrow> recording_complete cfg env req s
          | RecordingStatus \<Rightarrow> recording_status cfg env req s))"

section \<open>Invariants of the queue\<close>

text \<open>
  The bound on the retry counter, by where the job object is: waiting or in the pipeline it
  has attempts left; in the failure handler it has used them all and is marked failed.
\<close>

fun worker_ok :: "worker \<Rightarrow> bool" where
  "worker_ok (InPipeline j) = (attempts j < maxAttempts j)"
| "worker_ok (InFailureHandler j) = (attempts j = maxAttempts j \<and> status j = Failed)"

definition attempts_ok :: "service \<Rightarrow> bool" where
  "attempts_ok s =
     (list_all (\<lambda>j. attempts j < maxAttempts j) (processingQueue s) \<and>
      list_all worker_ok (workers s) \<and>
      list_all (\<lambda>j. attempts j \<le> maxAttempts j) (settled s))"

text \<open>
  The loop as it is meant to run: at most one activation, the flag set exactly while there
  is one, and no job marked \<open>processing\<close> outside the pipeline.
\<close>

fun not_processing :: "worker \<Rightarrow> bool" where
  "not_processing (InPipeline j) = True"
| "not_processing (InFailureHandler j) = (status j \<noteq> Processing)"

definition one_worker :: "service \<Rightarrow> bool" where
  "one_worker s =
     (length (workers s) \<le> 1 \<and> isProcessing s = (workers s \<noteq> []) \<and>
      list_all (\<lambda>j. status j \<noteq> Processing) (processingQueue s) \<and>
      list_all (\<lambda>j. status j \<noteq> Processing) (settled s) \<and>
      list_all not_processing (workers s))"

section \<open>A concrete call\<close>

text \<open>One caller, one recording, and the outcomes of the external calls of a run.\<close>

definition demo_config :: config where
  "demo_config =
     \<lparr>audio_maxSize = 10485760, io_present = True, twilio_phoneNumber = Some ''+15550100'',
      NODE_ENV = Some ''production'', twilio_authToken = Some ''token''\<rparr>"

definition caller_recording :: recording_data where
  "caller_recording =
     \<lparr>d_userId = Some ''u1'', d_callSid = Some ''CA1'',
      d_recordingUrl = Some ''https://api.example/rec/RE1.wav'', d_recordingSid = Some ''RE1'',
      d_phoneNumber = Some ''+15550123''\<rparr>"

definition empty_database :: database where
  "empty_database = \<lparr>users = [], sessions = [], generated_tracks = [], call_logs = []\<rparr>"

definition demo_transcription :: transcription where
  "demo_transcription =
     \<lparr>tr_text = ''la la la'', tr_duration = 12, tr_segments = [], tr_confidence = 1 / 2\<rparr>"

definition demo_analysis :: json where
  "demo_analysis =
     JObj [(''tempo'', JNum 96), (''key'', JStr ''G''), (''genres'', JArr [JStr ''rock''])]"

definition agents_succeed :: agent_replies where
  "agents_succeed =
     \<lparr>analyst_reply = Inr (JObj [(''tempo'', JNum 96), (''key'', JStr ''G''), (''scale'', JStr ''major'')]),
      composer_reply = Inr (JObj [(''primaryProgression'', JArr [JStr ''G'', JStr ''D'', JStr ''Em'', JStr ''C''])]),
      specialist_reply = Inr (JObj [(''primaryGenre'', JStr ''rock'')]),
      director_reply = Inr (JObj [(''mixLevels'', JObj [(''drums'', JNum (9 / 10))])]),
      clock_iso = ''2025-01-01T00:00:00.000Z'', clock_ms = 1735689600000\<rparr>"

definition demo_files :: audio_files where
  "demo_files =
     \<lparr>backingTrack = ''S1/backing.wav'', midi = ''S1/track.mid'', stemsZip = ''S1/stems.zip'',
      lyrics = ''S1/lyrics.txt'', downloadPackage = ''S1/package.zip'', totalSize = 4096\<rparr>"

definition all_succeed :: pipeline_env where
  "all_succeed =
     \<lparr>construct_processor = None,
      download_audio = Inr \<lparr>file_path = ''uploads/recording_1.wav'', file_size = 48000,
                             file_name = ''recording_1.wav''\<rparr>,
      file_access = None,
      whisper = Inr demo_transcription,
      analysis_reply = Inr demo_analysis,
      insert_session = Inr ''S1'',
      agents = agents_succeed,
      generate_audio_files = (\<lambda>sid music. Inr demo_files),
      update_completed = None,
      insert_tracks = None,
      sms_service = None,
      send_download_links = None,
      regenerate_result = Inr demo_files\<rparr>"

definition download_fails :: pipeline_env where
  "download_fails = all_succeed\<lparr>download_audio := Inl ''timeout of 30000ms exceeded''\<rparr>"

text \<open>One job whose download fails twice and whose third run goes through.\<close>

definition retry_scenario :: "service option" where
  "retry_scenario =
     run demo_config
       [QueueProcessingJob caller_recording ''job_1'',
        PipelineSettles 0 download_fails,
        PipelineSettles 0 download_fails,
        PipelineSettles 0 all_succeed]
       (initial empty_database)"

text \<open>One job whose download fails three times.\<close>

definition exhausted_scenario :: "service option" where
  "exhausted_scenario =
     run demo_config
       [QueueProcessingJob caller_recording ''job_1'',
        PipelineSettles 0 download_fails,
        PipelineSettles 0 download_fails,
        PipelineSettles 0 download_fails]
       (initial empty_database)"

definition second_recording :: recording_data where
  "second_recording =
     \<lparr>d_userId = Some ''u2'', d_callSid = Some ''CA2'',
      d_recordingUrl = Some ''https://api.example/rec/RE2.wav'', d_recordingSid = Some ''RE2'',
      d_phoneNumber = Some ''+15550456''\<rparr>"

text \<open>Two jobs: the first fails once while the second waits.\<close>

definition overtaking_scenario :: "service option" where
  "overtaking_scenario =
     run demo_config
       [QueueProcessingJob caller_recording ''job_1'',
        QueueProcessingJob second_recording ''job_2'',
        PipelineSettles 0
          (all_succeed\<lparr>construct_processor := None,
                       download_audio := Inl ''timeout of 30000ms exceeded''\<rparr>)]
       (initial empty_database)"

text \<open>A job is in the pipeline, the queue is cleared, a second job arrives.\<close>

definition cleared_scenario :: "service option" where
  "cleared_scenario =
     run demo_config
       [QueueProcessingJob caller_recording ''job_1'',
        ClearQueue,
        QueueProcessingJob second_recording ''job_2'']
       (initial empty_database)"

text \<open>Further inputs: a failed job of each type, webhook requests, the users behind them.\<close>

definition handler_ok :: handler_env where
  "handler_ok = \<lparr>update_failed = None, twilio_client = None, messages_create = None\<rparr>"

definition failed_regeneration_job :: job where
  "failed_regeneration_job =
     (new_regeneration_job
        \<lparr>r_sessionId = Some ''S1'', r_userId = Some ''u1'',
         r_originalAudioUrl = Some ''https://api.example/rec/RE1.wav'', r_options = None\<rparr>
        ''regen_1'')
     \<lparr>status := Failed, attempts := 3, lastError := Some ''Session not found''\<rparr>"

definition failed_recording_job :: job where
  "failed_recording_job =
     (new_recording_job caller_recording ''job_1'')
     \<lparr>status := Failed, attempts := 3,
      lastError := Some ''Failed to download audio: timeout of 30000ms exceeded''\<rparr>"

definition session_database :: database where
  "session_database =
     empty_database\<lparr>sessions :=
       [\<lparr>session_id = ''S1'', session_user_id = Some ''u1'',
         session_call_sid = Some (JStr ''CA1''), processing_status = ''processing''\<rparr>]\<rparr>"

definition rejecting_env :: http_env where
  "rejecting_env =
     \<lparr>validateRequest = (\<lambda>token sig url params. False),
      insert_call_log_fails = None,
      auth = \<lparr>select_user_fails = None, update_login_fails = None, now = 1000\<rparr>,
      update_recording_failed = None,
      fresh_job_id = ''job_9''\<rparr>"

definition accepting_env :: http_env where
  "accepting_env = rejecting_env\<lparr>validateRequest := (\<lambda>token sig url params. True)\<rparr>"

definition pin_request :: request where
  "pin_request =
     \<lparr>host = Some ''hum.example'', originalUrl = ''/twilio/authenticate'',
      signature = Some ''c2lnbmF0dXJl'',
      body = [(''Digits'', ''123456''), (''From'', ''+15550123''), (''CallSid'', ''CA1'')],
      query = []\<rparr>"

definition registered_database :: database where
  "registered_database =
     empty_database\<lparr>users :=
       [\<lparr>user_id = ''u1'', email = ''a@example.org'', user_name = ''Ada'',
         phone = Some ''+15550123'', pin = ''123456'', is_active = Some True,
         last_login = None\<rparr>]\<rparr>"

definition inactive_database :: database where
  "inactive_database =
     empty_database\<lparr>users :=
       [\<lparr>user_id = ''u1'', email = ''a@example.org'', user_name = ''Ada'',
         phone = Some ''+15550123'', pin = ''123456'', is_active = Some False,
         last_login = None\<rparr>]\<rparr>"

fun get_path :: "json \<Rightarrow> string list \<Rightarrow> json option" where
  "get_path v [] = Some v"
| "get_path v (k # ks) = (case get_prop v k of None \<Rightarrow> None | Some x \<Rightarrow> get_path x ks)"



definition sms_fails :: pipeline_env where
  "sms_fails = all_succeed\<lparr>send_download_links := Some ''The number is unverified''\<rparr>"

definition sms_scenario :: "service option" where
  "sms_scenario =
     run demo_config
       [QueueProcessingJob caller_recording ''job_1'', PipelineSettles 0 sms_fails]
       (initial empty_database)"

text \<open>
  The SMS service cannot be constructed: three runs of one job, then its failure handler.
\<close>

definition sms_service_fails :: pipeline_env where
  "sms_service_fails = all_succeed\<lparr>sms_service := Some ''username is required''\<rparr>"

definition sms_service_scenario :: "service option" where
  "sms_service_scenario =
     run demo_config
       [QueueProcessingJob caller_recording ''job_1'',
        PipelineSettles 0 sms_service_fails,
        PipelineSettles 0 sms_service_fails,
        PipelineSettles 0 sms_service_fails,
        FailureHandlerSettles 0 handler_ok]
       (initial empty_database)"

section \<open>Facts about the queue\<close>

lemmas queue_defs = initial_def queueProcessingJob_def queueRegenerationJob_def push_job_def
  processQueue_def while_queue_def suspend_new_def suspend_at_def processJob_begin_def
  processJob_end_def new_recording_job_def new_regeneration_job_def pipeline_settles_def
  after_pipeline_def catch_block_def drop_nth_def clearQueue_def handler_settles_def
  after_handler_def

lemmas pipeline_defs = processRecording_def downloadAudio_def validateAudioFile_def
  transcribe_and_record_def transcribeAudio_def analyzeMusicalElements_def createSession_def
  generate_and_save_def saveResults_def sendSMSNotification_def notify_user_def
  mark_completed_def
  add_tracks_def set_status_def

lemmas demo_defs = demo_config_def caller_recording_def second_recording_def empty_database_def
  demo_transcription_def demo_analysis_def agents_succeed_def demo_files_def all_succeed_def
  download_fails_def

lemma download_fails_pipeline:
  "download_audio env = Inl m \<Longrightarrow>
   processRecording mx env d uid url cs ph = (Inl (''Failed to download audio: '' @ m), d, [])"
  by (simp add: processRecording_def downloadAudio_def)

lemma download_fails_run:
  "construct_processor env = None \<Longrightarrow> download_audio env = Inl m \<Longrightarrow>
   jtype job = process_recording \<Longrightarrow>
   run_pipeline cfg env d job = (Inl (''Failed to download audio: '' @ m), d, [])"
  by (simp add: run_pipeline_def download_fails_pipeline)

lemma list_all_update: "list_all P xs \<Longrightarrow> P w \<Longrightarrow> list_all P (xs[i := w])"
  unfolding list_all_iff using set_update_subset_insert[of xs i w] by auto

lemma list_all_drop_nth: "list_all P xs \<Longrightarrow> list_all P (drop_nth i xs)"
  unfolding drop_nth_def list_all_iff
  by (auto dest: in_set_takeD in_set_dropD)

lemma attempts_ok_initial: "attempts_ok (initial d)"
  by (simp add: attempts_ok_def initial_def)

lemma while_queue_ok:
  assumes "attempts_ok s"
  shows "attempts_ok (snd (while_queue cfg s)) \<and>
         (case fst (while_queue cfg s) of None \<Rightarrow> True | Some w \<Rightarrow> worker_ok w)"
proof (cases "processingQueue s")
  case Nil
  then show ?thesis using assms by (simp add: attempts_ok_def while_queue_def)
next
  case (Cons job rest)
  then show ?thesis using assms
    by (simp add: attempts_ok_def while_queue_def processJob_begin_def)
qed

lemma suspend_new_ok:
  assumes "attempts_ok s"
  shows "attempts_ok (suspend_new (while_queue cfg s))"
  using while_queue_ok[OF assms, of cfg]
  by (auto simp: suspend_new_def attempts_ok_def split: option.splits)

lemma suspend_at_ok:
  assumes "attempts_ok s"
  shows "attempts_ok (suspend_at i (while_queue cfg s))"
  using while_queue_ok[OF assms, of cfg]
  by (auto simp: suspend_at_def attempts_ok_def list_all_update list_all_drop_nth split: option.splits)

lemma push_job_ok:
  assumes "attempts_ok s" "attempts job < maxAttempts job"
  shows "attempts_ok (push_job cfg job s)"
proof -
  let ?s1 = "s\<lparr>processingQueue := processingQueue s @ [job]\<rparr>"
  have s1: "attempts_ok ?s1" using assms by (simp add: attempts_ok_def)
  then have "attempts_ok (?s1\<lparr>isProcessing := True\<rparr>)" by (simp add: attempts_ok_def)
  then have "attempts_ok (suspend_new (while_queue cfg (?s1\<lparr>isProcessing := True\<rparr>)))"
    by (rule suspend_new_ok)
  with s1 show ?thesis by (simp add: push_job_def processQueue_def Let_def)
qed

lemma clearQueue_ok: "attempts_ok s \<Longrightarrow> attempts_ok (clearQueue s)"
  by (simp add: attempts_ok_def clearQueue_def)

lemma catch_block_attempts: "attempts (fst (catch_block job msg)) = attempts job + 1"
  by (simp add: catch_block_def Let_def)

lemma catch_block_max: "maxAttempts (fst (catch_block job msg)) = maxAttempts job"
  by (simp add: catch_block_def Let_def)

lemma catch_block_requeue: "snd (catch_block job msg) = (attempts job + 1 < maxAttempts job)"
  by (simp add: catch_block_def Let_def)

lemma catch_block_status:
  "status (fst (catch_block job msg)) =
     (if attempts job + 1 < maxAttempts job then Retrying else Failed)"
  by (simp add: catch_block_def Let_def)

lemma after_pipeline_ok:
  assumes "attempts_ok s" "attempts job < maxAttempts job"
  shows "attempts_ok (after_pipeline cfg i job out s)"
proof (cases "fst out")
  case (Inr r)
  let ?s2 = "s\<lparr>db := fst (snd out), outbox := outbox s @ snd (snd out),
      settled := settled s @ [fst (processJob_end cfg job r)],
      outbox := (outbox s @ snd (snd out)) @ snd (processJob_end cfg job r)\<rparr>"
  have "attempts_ok ?s2" using assms by (simp add: attempts_ok_def processJob_end_def)
  then have "attempts_ok (suspend_at i (while_queue cfg ?s2))" by (rule suspend_at_ok)
  with Inr show ?thesis by (simp add: after_pipeline_def Let_def)
next
  case (Inl msg)
  show ?thesis
  proof (cases "snd (catch_block job msg)")
    case True
    let ?s2 = "s\<lparr>db := fst (snd out), outbox := outbox s @ snd (snd out),
      processingQueue := processingQueue s @ [fst (catch_block job msg)]\<rparr>"
    have "attempts_ok ?s2" using assms True
      by (simp add: attempts_ok_def catch_block_attempts catch_block_max catch_block_requeue)
    then have "attempts_ok (suspend_at i (while_queue cfg ?s2))" by (rule suspend_at_ok)
    with Inl True show ?thesis by (simp add: after_pipeline_def Let_def)
  next
    case False
    then have "attempts (fst (catch_block job msg)) = maxAttempts (fst (catch_block job msg))"
      using assms(2) by (simp add: catch_block_attempts catch_block_max catch_block_requeue)
    moreover have "status (fst (catch_block job msg)) = Failed"
      using False by (simp add: catch_block_status catch_block_requeue)
    ultimately show ?thesis using Inl False assms(1)
      by (simp add: after_pipeline_def Let_def attempts_ok_def list_all_update)
  qed
qed

lemma after_handler_ok:
  assumes "attempts_ok s" "attempts job = maxAttempts job"
  shows "attempts_ok (after_handler cfg i job out s)"
proof (cases out)
  case (Inl e)
  then show ?thesis using assms
    by (simp add: after_handler_def attempts_ok_def list_all_drop_nth)
next
  case (Inr r)
  let ?s2 = "s\<lparr>db := fst r, outbox := outbox s @ snd r, settled := settled s @ [job]\<rparr>"
  have "attempts_ok ?s2" using assms by (simp add: attempts_ok_def)
  then have "attempts_ok (suspend_at i (while_queue cfg ?s2))" by (rule suspend_at_ok)
  with Inr show ?thesis by (simp add: after_handler_def)
qed

lemma worker_ok_nth: "list_all worker_ok ws \<Longrightarrow> i < length ws \<Longrightarrow> worker_ok (ws ! i)"
  by (simp add: list_all_length)

lemma step_ok:
  assumes "attempts_ok s" "step cfg e s = Some s'"
  shows "attempts_ok s'"
proof (cases e)
  case (QueueProcessingJob d ident)
  then show ?thesis using assms
    by (auto simp: queueProcessingJob_def new_recording_job_def intro!: push_job_ok)
next
  case (QueueRegenerationJob d ident)
  then show ?thesis using assms
    by (auto simp: queueRegenerationJob_def new_regeneration_job_def intro!: push_job_ok)
next
  case (PipelineSettles i env)
  with assms(2) have i: "i < length (workers s)"
    by (simp add: pipeline_settles_def split: if_splits)
  from assms(1) have "worker_ok (workers s ! i)"
    using i by (simp add: attempts_ok_def worker_ok_nth)
  with PipelineSettles assms i show ?thesis
    by (auto simp: pipeline_settles_def split: worker.splits intro!: after_pipeline_ok)
next
  case (FailureHandlerSettles i henv)
  with assms(2) have i: "i < length (workers s)"
    by (simp add: handler_settles_def split: if_splits)
  from assms(1) have "worker_ok (workers s ! i)"
    using i by (simp add: attempts_ok_def worker_ok_nth)
  with FailureHandlerSettles assms i show ?thesis
    by (auto simp: handler_settles_def split: worker.splits intro!: after_handler_ok)
next
  case ClearQueue
  then show ?thesis using assms by (auto intro: clearQueue_ok)
qed

lemma run_ok: "attempts_ok s \<Longrightarrow> run cfg evs s = Some s' \<Longrightarrow> attempts_ok s'"
proof (induction evs arbitrary: s)
  case Nil
  then show ?case by simp
next
  case (Cons e evs)
  then show ?case by (auto split: option.splits dest: step_ok)
qed

lemma exhausted_scenario_state:
  "exhausted_scenario =
     Some \<lparr>processingQueue = [], isProcessing = True,
           workers = [InFailureHandler
              ((new_recording_job caller_recording ''job_1'')
                 \<lparr>status := Failed, attempts := 3,
                  lastError := Some ''Failed to download audio: timeout of 30000ms exceeded''\<rparr>)],
           settled = [], db = empty_database,
           outbox = [Emit ''user_u1'' ''processing_started''
                       [(''jobId'', JStr ''job_1''), (''sessionId'', JStr ''CA1''),
                        (''type'', JStr ''process_recording'')],
                     Emit ''user_u1'' ''processing_started''
                       [(''jobId'', JStr ''job_1''), (''sessionId'', JStr ''CA1''),
                        (''type'', JStr ''process_recording'')],
                     Emit ''user_u1'' ''processing_started''
                       [(''jobId'', JStr ''job_1''), (''sessionId'', JStr ''CA1''),
                        (''type'', JStr ''process_recording'')]]\<rparr>"
  by (simp add: exhausted_scenario_def queue_defs run_pipeline_def download_fails_pipeline
      demo_defs emit_to_user_def or_else_def present_def opt_field_def type_name_def Let_def)

lemma handleJobFailure_returns: "\<exists>r. handleJobFailure cfg henv job d = Inr r"
  by (simp add: handleJobFailure_def Let_def)

text \<open>
  How the loop goes on after an await: it shifts the head of the queue, if there is one,
  into the activation's place and leaves the rest of the queue and the settled jobs alone.
\<close>

lemma continue_queue:
  "processingQueue (suspend_at i (while_queue cfg s)) = tl (processingQueue s)"
  by (cases "processingQueue s") (simp_all add: suspend_at_def while_queue_def)

lemma continue_settled: "settled (suspend_at i (while_queue cfg s)) = settled s"
  by (cases "processingQueue s") (simp_all add: suspend_at_def while_queue_def)

lemma continue_workers:
  "workers (suspend_at i (while_queue cfg s)) =
     (case processingQueue s of
        [] \<Rightarrow> drop_nth i (workers s)
      | next # rest \<Rightarrow> (workers s)[i := InPipeline (next\<lparr>status := Processing\<rparr>)])"
  by (cases "processingQueue s") (simp_all add: suspend_at_def while_queue_def processJob_begin_def)

lemma requeue_step:
  "i < length (workers s) \<and> workers s ! i = InPipeline job \<and>
   fst (run_pipeline cfg env (db s) job) = Inl msg \<and>
   attempts job + 1 < maxAttempts job \<longrightarrow>
   (\<exists>s'. step cfg (PipelineSettles i env) s = Some s' \<and>
         settled s' = settled s \<and>
         processingQueue s' =
           tl (processingQueue s @
                 [job\<lparr>attempts := attempts job + 1, lastError := Some msg, status := Retrying\<rparr>]) \<and>
         workers s' ! i =
           InPipeline
             ((hd (processingQueue s @
                     [job\<lparr>attempts := attempts job + 1, lastError := Some msg,
                          status := Retrying\<rparr>]))\<lparr>status := Processing\<rparr>))"
  by (cases "processingQueue s")
     (simp_all add: pipeline_settles_def after_pipeline_def catch_block_def Let_def
        continue_queue continue_settled continue_workers)

lemma success_step:
  "i < length (workers s) \<and> workers s ! i = InPipeline job \<and>
   fst (run_pipeline cfg env (db s) job) = Inr r \<longrightarrow>
   (\<exists>s'. step cfg (PipelineSettles i env) s = Some s' \<and>
         settled s' = settled s @ [job\<lparr>status := Completed\<rparr>] \<and>
         processingQueue s' = tl (processingQueue s))"
  by (simp add: pipeline_settles_def after_pipeline_def processJob_end_def Let_def
      continue_queue continue_settled)

lemma handler_step:
  "i < length (workers s) \<and> workers s ! i = InFailureHandler job \<longrightarrow>
   (\<exists>s'. step cfg (FailureHandlerSettles i henv) s = Some s' \<and>
         settled s' = settled s @ [job] \<and>
         processingQueue s' = tl (processingQueue s))"
proof -
  obtain r where r: "handleJobFailure cfg henv job (db s) = Inr r"
    using handleJobFailure_returns by blast
  show ?thesis
    by (simp add: handler_settles_def after_handler_def r continue_queue continue_settled)
qed

lemma after_success_fifo:
  "processingQueue (after_pipeline cfg i job (Inr r, d', fx) s) = tl (processingQueue s) \<and>
   workers (after_pipeline cfg i job (Inr r, d', fx) s) =
     (case processingQueue s of
        [] \<Rightarrow> drop_nth i (workers s)
      | next # rest \<Rightarrow> (workers s)[i := InPipeline (next\<lparr>status := Processing\<rparr>)])"
  by (cases "processingQueue s")
     (simp_all add: after_pipeline_def Let_def continue_queue continue_workers)

lemma after_handler_fifo:
  "processingQueue (after_handler cfg i job (Inr r') s) = tl (processingQueue s) \<and>
   workers (after_handler cfg i job (Inr r') s) =
     (case processingQueue s of
        [] \<Rightarrow> drop_nth i (workers s)
      | next # rest \<Rightarrow> (workers s)[i := InPipeline (next\<lparr>status := Processing\<rparr>)])"
  by (cases "processingQueue s")
     (simp_all add: after_handler_def continue_queue continue_workers)

text \<open>
  C2. In every state the service can reach, a job that waits in the queue or runs in the
  pipeline has fewer attempts than its maximum, a job in the failure handler has exactly its
  maximum and is marked failed, and no job the loop has let go of exceeds its maximum. The
  \<open>catch\<close> block adds exactly one to the counter and asks for a requeue exactly when the new
  count is below the maximum; when a failing run brings the counter to the maximum, the job
  goes to the failure handler and the queue is left as it was. Step by step: a failing run
  below the maximum appends the job once, with the counter one higher, and settles nothing;
  a successful run settles the job as completed with its counter untouched; the end of the
  failure handler settles the job as it is; and the last two only take the head off the
  queue, so a job that has reached its maximum never comes back to it.
\<close>

theorem attempts_counter_bounded:
  assumes "run cfg evs (initial d) = Some s"
  shows "list_all (\<lambda>j. attempts j < maxAttempts j) (processingQueue s) \<and>
         list_all worker_ok (workers s) \<and>
         list_all (\<lambda>j. attempts j \<le> maxAttempts j) (settled s) \<and>
         (\<forall>job msg. attempts (fst (catch_block job msg)) = attempts job + 1 \<and>
                    snd (catch_block job msg) = (attempts job + 1 < maxAttempts job)) \<and>
         (\<forall>i job env msg.
            i < length (workers s) \<and> workers s ! i = InPipeline job \<and>
            fst (run_pipeline cfg env (db s) job) = Inl msg \<and>
            attempts job + 1 = maxAttempts job \<longrightarrow>
            (\<exists>s'. step cfg (PipelineSettles i env) s = Some s' \<and>
                  workers s' ! i =
                    InFailureHandler
                      (job\<lparr>attempts := attempts job + 1, status := Failed, lastError := Some msg\<rparr>) \<and>
                  processingQueue s' = processingQueue s)) \<and>
         (\<forall>i job env msg.
            i < length (workers s) \<and> workers s ! i = InPipeline job \<and>
            fst (run_pipeline cfg env (db s) job) = Inl msg \<and>
            attempts job + 1 < maxAttempts job \<longrightarrow>
            (\<exists>s'. step cfg (PipelineSettles i env) s = Some s' \<and>
                  settled s' = settled s \<and>
                  processingQueue s' =
                    tl (processingQueue s @
                          [job\<lparr>attempts := attempts job + 1, lastError := Some msg,
                               status := Retrying\<rparr>]) \<and>
                  workers s' ! i =
                    InPipeline
                      ((hd (processingQueue s @
                              [job\<lparr>attempts := attempts job + 1, lastError := Some msg,
                                   status := Retrying\<rparr>]))\<lparr>status := Processing\<rparr>))) \<and>
         (\<forall>i job env r.
            i < length (workers s) \<and> workers s ! i = InPipeline job \<and>
            fst (run_pipeline cfg env (db s) job) = Inr r \<longrightarrow>
            (\<exists>s'. step cfg (PipelineSettles i env) s = Some s' \<and>
                  settled s' = settled s @ [job\<lparr>status := Completed\<rparr>] \<and>
                  processingQueue s' = tl (processingQueue s))) \<and>
         (\<forall>i job henv.
            i < length (workers s) \<and> workers s ! i = InFailureHandler job \<longrightarrow>
            (\<exists>s'. step cfg (FailureHandlerSettles i henv) s = Some s' \<and>
                  settled s' = settled s @ [job] \<and>
                  processingQueue s' = tl (processingQueue s)))"
proof -
  have "attempts_ok s"
    using run_ok[OF attempts_ok_initial assms] .
  then have inv: "list_all (\<lambda>j. attempts j < maxAttempts j) (processingQueue s) \<and>
         list_all worker_ok (workers s) \<and>
         list_all (\<lambda>j. attempts j \<le> maxAttempts j) (settled s)"
    by (simp add: attempts_ok_def)
  have cb: "\<forall>job msg. attempts (fst (catch_block job msg)) = attempts job + 1 \<and>
                    snd (catch_block job msg) = (attempts job + 1 < maxAttempts job)"
    by (simp add: catch_block_attempts catch_block_requeue)
  have last: "\<forall>i job env msg.
            i < length (workers s) \<and> workers s ! i = InPipeline job \<and>
            fst (run_pipeline cfg env (db s) job) = Inl msg \<and>
            attempts job + 1 = maxAttempts job \<longrightarrow>
            (\<exists>s'. step cfg (PipelineSettles i env) s = Some s' \<and>
                  workers s' ! i =
                    InFailureHandler
                      (job\<lparr>attempts := attempts job + 1, status := Failed, lastError := Some msg\<rparr>) \<and>
                  processingQueue s' = processingQueue s)"
    by (simp add: pipeline_settles_def after_pipeline_def catch_block_def Let_def)
  have rq: "\<forall>i job env msg.
            i < length (workers s) \<and> workers s ! i = InPipeline job \<and>
            fst (run_pipeline cfg env (db s) job) = Inl msg \<and>
            attempts job + 1 < maxAttempts job \<longrightarrow>
            (\<exists>s'. step cfg (PipelineSettles i env) s = Some s' \<and>
                  settled s' = settled s \<and>
                  processingQueue s' =
                    tl (processingQueue s @
                          [job\<lparr>attempts := attempts job + 1, lastError := Some msg,
                               status := Retrying\<rparr>]) \<and>
                  workers s' ! i =
                    InPipeline
                      ((hd (processingQueue s @
                              [job\<lparr>attempts := attempts job + 1, lastError := Some msg,
                                   status := Retrying\<rparr>]))\<lparr>status := Processing\<rparr>))"
    by (intro allI) (rule requeue_step)
  have su: "\<forall>i job env r.
            i < length (workers s) \<and> workers s ! i = InPipeline job \<and>
            fst (run_pipeline cfg env (db s) job) = Inr r \<longrightarrow>
            (\<exists>s'. step cfg (PipelineSettles i env) s = Some s' \<and>
                  settled s' = settled s @ [job\<lparr>status := Completed\<rparr>] \<and>
                  processingQueue s' = tl (processingQueue s))"
    by (intro allI) (rule success_step)
  have ha: "\<forall>i job henv.
            i < length (workers s) \<and> workers s ! i = InFailureHandler job \<longrightarrow>
            (\<exists>s'. step cfg (FailureHandlerSettles i henv) s = Some s' \<and>
                  settled s' = settled s @ [job] \<and>
                  processingQueue s' = tl (processingQueue s))"
    by (intro allI) (rule handler_step)
  show ?thesis
    by (rule conjI[OF inv[THEN conjunct1] conjI[OF inv[THEN conjunct2, THEN conjunct1]
          conjI[OF inv[THEN conjunct2, THEN conjunct2] conjI[OF cb conjI[OF last
          conjI[OF rq conjI[OF su ha]]]]]]])
qed

theorem attempts_counter_bounded_witness:
  "exhausted_scenario \<noteq> None \<and>
   list_all worker_ok (workers (the exhausted_scenario)) \<and>
   map attempts (map worker_job (workers (the exhausted_scenario))) = [3] \<and>
   map maxAttempts (map worker_job (workers (the exhausted_scenario))) = [3] \<and>
   processingQueue (the exhausted_scenario) = []"
proof -
  have r: "run demo_config
       [QueueProcessingJob caller_recording ''job_1'',
        PipelineSettles 0 download_fails,
        PipelineSettles 0 download_fails,
        PipelineSettles 0 download_fails]
       (initial empty_database) = Some (the exhausted_scenario)"
    unfolding exhausted_scenario_def[symmetric] by (simp add: exhausted_scenario_state)
  have e: "exhausted_scenario \<noteq> None"
    by (simp add: exhausted_scenario_state)
  have w: "map worker_job (workers (the exhausted_scenario)) =
             [(new_recording_job caller_recording ''job_1'')
                 \<lparr>status := Failed, attempts := 3,
                  lastError := Some ''Failed to download audio: timeout of 30000ms exceeded''\<rparr>]"
    by (simp add: exhausted_scenario_state worker_job_def)
  have q: "processingQueue (the exhausted_scenario) = []"
    by (simp add: exhausted_scenario_state)
  have a: "list_all worker_ok (workers (the exhausted_scenario))"
    by (rule attempts_counter_bounded[OF r, THEN conjunct2, THEN conjunct1])
  show ?thesis
    using e a q by (simp add: w new_recording_job_def)
qed

text \<open>
  Without \<open>clearQueue\<close> the loop keeps to one activation: in every state reached by enqueue
  calls and settled awaits alone, at most one job has status \<open>processing\<close>.
\<close>

lemma one_worker_initial: "one_worker (initial d)"
  by (simp add: one_worker_def initial_def)

lemma continue_one_worker:
  assumes "length (workers s) = 1" "isProcessing s"
    and "list_all (\<lambda>j. status j \<noteq> Processing) (processingQueue s)"
    and "list_all (\<lambda>j. status j \<noteq> Processing) (settled s)"
  shows "one_worker (suspend_at 0 (while_queue cfg s))"
proof -
  obtain w where w: "workers s = [w]"
    using assms(1) by (cases "workers s") auto
  show ?thesis
  proof (cases "processingQueue s")
    case Nil
    then show ?thesis using assms w
      by (simp add: one_worker_def while_queue_def suspend_at_def drop_nth_def)
  next
    case (Cons job rest)
    then show ?thesis using assms w
      by (simp add: one_worker_def while_queue_def suspend_at_def processJob_begin_def)
  qed
qed

lemma push_job_one_worker:
  assumes "one_worker s" "status job \<noteq> Processing"
  shows "one_worker (push_job cfg job s)"
proof (cases "isProcessing s")
  case True
  then show ?thesis using assms by (simp add: push_job_def one_worker_def Let_def)
next
  case False
  then have "workers s = []" using assms(1) by (simp add: one_worker_def)
  then show ?thesis using assms False
    by (cases "processingQueue s")
       (simp_all add: push_job_def processQueue_def one_worker_def while_queue_def
          suspend_new_def processJob_begin_def Let_def)
qed

lemma after_pipeline_one_worker:
  assumes "one_worker s" "workers s = [InPipeline job]"
  shows "one_worker (after_pipeline cfg 0 job out s)"
proof -
  have p: "isProcessing s" using assms by (simp add: one_worker_def)
  have q: "list_all (\<lambda>j. status j \<noteq> Processing) (processingQueue s)"
    and t: "list_all (\<lambda>j. status j \<noteq> Processing) (settled s)"
    using assms(1) by (simp_all add: one_worker_def)
  show ?thesis
  proof (cases "fst out")
    case (Inr r)
    let ?s2 = "s\<lparr>db := fst (snd out), outbox := outbox s @ snd (snd out),
      settled := settled s @ [fst (processJob_end cfg job r)],
      outbox := (outbox s @ snd (snd out)) @ snd (processJob_end cfg job r)\<rparr>"
    have "one_worker (suspend_at 0 (while_queue cfg ?s2))"
      using assms(2) p q t by (intro continue_one_worker) (simp_all add: processJob_end_def)
    with Inr show ?thesis by (simp add: after_pipeline_def Let_def)
  next
    case (Inl msg)
    show ?thesis
    proof (cases "snd (catch_block job msg)")
      case True
      let ?s2 = "s\<lparr>db := fst (snd out), outbox := outbox s @ snd (snd out),
        processingQueue := processingQueue s @ [fst (catch_block job msg)]\<rparr>"
      have "status (fst (catch_block job msg)) \<noteq> Processing"
        by (simp add: catch_block_status)
      then have "one_worker (suspend_at 0 (while_queue cfg ?s2))"
        using assms(2) p q t by (intro continue_one_worker) simp_all
      with Inl True show ?thesis by (simp add: after_pipeline_def Let_def)
    next
      case False
      have "status (fst (catch_block job msg)) \<noteq> Processing"
        by (simp add: catch_block_status)
      with Inl False assms p q t show ?thesis
        by (simp add: after_pipeline_def Let_def one_worker_def)
    qed
  qed
qed

lemma after_handler_one_worker:
  assumes "one_worker s" "workers s = [InFailureHandler job]"
  shows "one_worker (after_handler cfg 0 job (handleJobFailure cfg henv job (db s)) s)"
proof -
  obtain r where r: "handleJobFailure cfg henv job (db s) = Inr r"
    using handleJobFailure_returns by blast
  have p: "isProcessing s" using assms by (simp add: one_worker_def)
  have q: "list_all (\<lambda>j. status j \<noteq> Processing) (processingQueue s)"
    and t: "list_all (\<lambda>j. status j \<noteq> Processing) (settled s)"
    and j: "status job \<noteq> Processing"
    using assms by (simp_all add: one_worker_def)
  let ?s2 = "s\<lparr>db := fst r, outbox := outbox s @ snd r, settled := settled s @ [job]\<rparr>"
  have "one_worker (suspend_at 0 (while_queue cfg ?s2))"
    using assms(2) p q t j by (intro continue_one_worker) simp_all
  then show ?thesis by (simp add: after_handler_def r)
qed

lemma step_one_worker:
  assumes "one_worker s" "e \<noteq> ClearQueue" "step cfg e s = Some s'"
  shows "one_worker s'"
proof (cases e)
  case (QueueProcessingJob d ident)
  then show ?thesis using assms
    by (auto simp: queueProcessingJob_def new_recording_job_def intro!: push_job_one_worker)
next
  case (QueueRegenerationJob d ident)
  then show ?thesis using assms
    by (auto simp: queueRegenerationJob_def new_regeneration_job_def intro!: push_job_one_worker)
next
  case (PipelineSettles i env)
  with assms(3) have i: "i < length (workers s)"
    by (simp add: pipeline_settles_def split: if_splits)
  with assms(1) have i0: "i = 0" and l: "length (workers s) = 1"
    by (simp_all add: one_worker_def)
  then obtain w where w: "workers s = [w]" by (cases "workers s") auto
  show ?thesis
  proof (cases w)
    case (InPipeline job)
    with PipelineSettles assms i0 w show ?thesis
      by (auto simp: pipeline_settles_def intro!: after_pipeline_one_worker)
  next
    case (InFailureHandler job)
    with PipelineSettles assms i0 w show ?thesis
      by (simp add: pipeline_settles_def)
  qed
next
  case (FailureHandlerSettles i henv)
  with assms(3) have i: "i < length (workers s)"
    by (simp add: handler_settles_def split: if_splits)
  with assms(1) have i0: "i = 0" and l: "length (workers s) = 1"
    by (simp_all add: one_worker_def)
  then obtain w where w: "workers s = [w]" by (cases "workers s") auto
  show ?thesis
  proof (cases w)
    case (InPipeline job)
    with FailureHandlerSettles assms i0 w show ?thesis
      by (simp add: handler_settles_def)
  next
    case (InFailureHandler job)
    with FailureHandlerSettles assms i0 w show ?thesis
      by (auto simp: handler_settles_def intro!: after_handler_one_worker)
  qed
next
  case ClearQueue
  with assms(2) show ?thesis by simp
qed

lemma run_one_worker:
  "one_worker s \<Longrightarrow> ClearQueue \<notin> set evs \<Longrightarrow> run cfg evs s = Some s' \<Longrightarrow> one_worker s'"
proof (induction evs arbitrary: s)
  case Nil
  then show ?case by simp
next
  case (Cons e evs)
  from Cons.prems(3) obtain s1 where s1: "step cfg e s = Some s1" "run cfg evs s1 = Some s'"
    by (auto split: option.splits)
  have ne: "e \<noteq> ClearQueue" using Cons.prems(2) by auto
  have "one_worker s1" by (rule step_one_worker[OF Cons.prems(1) ne s1(1)])
  moreover have "ClearQueue \<notin> set evs" using Cons.prems(2) by simp
  ultimately show ?case using s1(2) by (rule Cons.IH)
qed

lemma one_worker_processing: "one_worker s \<Longrightarrow> length (processing_jobs s) \<le> 1"
proof -
  assume a: "one_worker s"
  have q: "filter (\<lambda>j. status j = Processing) (processingQueue s) = []"
    using a by (simp add: one_worker_def list_all_iff filter_empty_conv)
  have t: "filter (\<lambda>j. status j = Processing) (settled s) = []"
    using a by (simp add: one_worker_def list_all_iff filter_empty_conv)
  have "length (filter (\<lambda>j. status j = Processing) (map worker_job (workers s)))
          \<le> length (map worker_job (workers s))"
    by (rule length_filter_le)
  also have "\<dots> \<le> 1" using a by (simp add: one_worker_def)
  finally show ?thesis by (simp add: processing_jobs_def all_jobs_def q t)
qed

lemma single_worker_without_clearQueue:
  "ClearQueue \<notin> set evs \<Longrightarrow> run cfg evs (initial d) = Some s \<Longrightarrow>
   length (processing_jobs s) \<le> 1 \<and> length (workers s) \<le> 1"
  using run_one_worker[OF one_worker_initial] one_worker_processing
  by (fastforce simp: one_worker_def)

text \<open>
  C1. The claim is that at most one job has status \<open>processing\<close> in every reachable
  state, whatever the interleaving of enqueue calls, loop steps and \<open>clearQueue\<close> calls.
  Enqueue calls and loop steps alone keep it (\<open>single_worker_without_clearQueue\<close>). But
  \<open>clearQueue\<close> resets \<open>isProcessing\<close> while an activation of the loop is suspended in the
  pipeline, so the next enqueue starts a second activation: after enqueue, \<open>clearQueue\<close>,
  enqueue there are two activations, and both jobs have status \<open>processing\<close>.
\<close>

theorem clearQueue_starts_second_worker:
  "\<exists>s. run cfg [QueueProcessingJob d1 i1, ClearQueue, QueueProcessingJob d2 i2] (initial d) = Some s \<and>
       map job_id (processing_jobs s) = [i1, i2] \<and>
       map status (processing_jobs s) = [Processing, Processing] \<and>
       length (workers s) = 2"
  by (simp add: queue_defs processing_jobs_def all_jobs_def worker_job_def Let_def)

theorem clearQueue_starts_second_worker_witness:
  "\<exists>s. cleared_scenario = Some s \<and>
       map job_id (processing_jobs s) = [''job_1'', ''job_2''] \<and>
       map status (processing_jobs s) = [Processing, Processing] \<and>
       length (workers s) = 2"
  unfolding cleared_scenario_def by (rule clearQueue_starts_second_worker)

text \<open>
  C3 as stated: the job ends completed with its counter at 3. In the run where the download
  fails twice and the third run succeeds, the job ends completed and the counter is 2.
\<close>

theorem third_attempt_counterexample:
  "map status (settled (the retry_scenario)) = [Completed] \<and>
   map attempts (settled (the retry_scenario)) = [2] \<and>
   map attempts (settled (the retry_scenario)) \<noteq> [3]"
  by (simp add: retry_scenario_def queue_defs run_pipeline_def download_fails_pipeline
      pipeline_defs demo_defs Let_def)

text \<open>
  C3, amended. A job enqueued with \<open>maxAttempts = 3\<close> whose pipeline throws in the download
  stage on the first two runs and succeeds on the third ends with status \<open>completed\<close> and
  with its counter at 2: the counter counts the failed runs only. The loop has then ended.
\<close>

theorem third_attempt_completes_with_two_failures:
  assumes "construct_processor e1 = None" "download_audio e1 = Inl m1"
    and "construct_processor e2 = None" "download_audio e2 = Inl m2"
    and "construct_processor e3 = None"
    and "fst (processRecording (audio_maxSize cfg) e3 d (d_userId jd) (d_recordingUrl jd)
               (d_callSid jd) (d_phoneNumber jd)) = Inr r"
  shows "\<exists>s. run cfg [QueueProcessingJob jd ident, PipelineSettles 0 e1, PipelineSettles 0 e2,
                      PipelineSettles 0 e3] (initial d) = Some s \<and>
             map job_id (settled s) = [ident] \<and> map maxAttempts (settled s) = [3] \<and>
             map status (settled s) = [Completed] \<and>
             map attempts (settled s) = [2] \<and> processingQueue s = [] \<and> workers s = [] \<and>
             isProcessing s = False"
  using assms
  by (simp add: queue_defs run_pipeline_def download_fails_pipeline Let_def)

theorem third_attempt_completes_with_two_failures_witness:
  "\<exists>s. retry_scenario = Some s \<and>
       map job_id (settled s) = [''job_1''] \<and> map maxAttempts (settled s) = [3] \<and>
       map status (settled s) = [Completed] \<and>
       map attempts (settled s) = [2] \<and> processingQueue s = [] \<and> workers s = [] \<and>
       isProcessing s = False"
proof -
  have f: "download_audio download_fails = Inl ''timeout of 30000ms exceeded''"
    by (simp add: download_fails_def)
  have c: "construct_processor download_fails = None"
    by (simp add: download_fails_def all_succeed_def)
  have c3: "construct_processor all_succeed = None"
    by (simp add: all_succeed_def)
  have ok: "fst (processRecording (audio_maxSize demo_config) all_succeed empty_database
               (d_userId caller_recording) (d_recordingUrl caller_recording)
               (d_callSid caller_recording) (d_phoneNumber caller_recording)) =
            Inr \<lparr>result_sessionId = ''S1'', result_success = True, result_files = demo_files\<rparr>"
    by (simp add: pipeline_defs demo_defs)
  show ?thesis
    unfolding retry_scenario_def
    by (rule third_attempt_completes_with_two_failures[OF c f c f c3 ok])
qed

text \<open>
  C4. The loop shifts the job at the head of the queue; an enqueue while the loop is active
  appends at the tail; a job whose run fails with attempts left is appended at the tail
  with status \<open>retrying\<close> before the loop goes on. Hence there is a run in which a job
  enqueued after another, still retrying job is processed before that job's next attempt:
  A is enqueued and starts, B is enqueued, A fails; then B is in the pipeline and A waits.
  After a successful run and after the failure handler the loop goes on the same way: the
  head of the queue takes the activation's place and the rest keeps its order.
\<close>

theorem retrying_job_overtaken:
  "fst (while_queue cfg (s\<lparr>processingQueue := job # rest\<rparr>)) =
     Some (InPipeline (job\<lparr>status := Processing\<rparr>)) \<and>
   processingQueue (snd (while_queue cfg (s\<lparr>processingQueue := job # rest\<rparr>))) = rest \<and>
   processingQueue (push_job cfg job (s\<lparr>isProcessing := True\<rparr>)) = processingQueue s @ [job] \<and>
   (attempts job + 1 < maxAttempts job \<longrightarrow>
      after_pipeline cfg i job (Inl msg, d', fx) s =
        suspend_at i (while_queue cfg
          (s\<lparr>db := d', outbox := outbox s @ fx,
             processingQueue := processingQueue s @
               [job\<lparr>attempts := attempts job + 1, lastError := Some msg, status := Retrying\<rparr>]\<rparr>))) \<and>
   (\<exists>s'. run cfg [QueueProcessingJob dA iA, QueueProcessingJob dB iB,
                   PipelineSettles 0 (env\<lparr>construct_processor := None, download_audio := Inl m\<rparr>)] (initial d) = Some s' \<and>
         workers s' = [InPipeline ((new_recording_job dB iB)\<lparr>status := Processing\<rparr>)] \<and>
         processingQueue s' =
           [(new_recording_job dA iA)
              \<lparr>attempts := 1, status := Retrying,
               lastError := Some (''Failed to download audio: '' @ m)\<rparr>]) \<and>
   (processingQueue (after_pipeline cfg i job (Inr r, d', fx) s) = tl (processingQueue s) \<and>
    workers (after_pipeline cfg i job (Inr r, d', fx) s) =
      (case processingQueue s of
         [] \<Rightarrow> drop_nth i (workers s)
       | next # rest \<Rightarrow> (workers s)[i := InPipeline (next\<lparr>status := Processing\<rparr>)])) \<and>
   (processingQueue (after_handler cfg i job (Inr r') s) = tl (processingQueue s) \<and>
    workers (after_handler cfg i job (Inr r') s) =
      (case processingQueue s of
         [] \<Rightarrow> drop_nth i (workers s)
       | next # rest \<Rightarrow> (workers s)[i := InPipeline (next\<lparr>status := Processing\<rparr>)]))"
proof -
  have head: "fst (while_queue cfg (s\<lparr>processingQueue := job # rest\<rparr>)) =
     Some (InPipeline (job\<lparr>status := Processing\<rparr>)) \<and>
   processingQueue (snd (while_queue cfg (s\<lparr>processingQueue := job # rest\<rparr>))) = rest"
    by (simp add: while_queue_def processJob_begin_def)
  have tail: "processingQueue (push_job cfg job (s\<lparr>isProcessing := True\<rparr>)) =
       processingQueue s @ [job]"
    by (simp add: push_job_def Let_def)
  have retry: "attempts job + 1 < maxAttempts job \<longrightarrow>
      after_pipeline cfg i job (Inl msg, d', fx) s =
        suspend_at i (while_queue cfg
          (s\<lparr>db := d', outbox := outbox s @ fx,
             processingQueue := processingQueue s @
               [job\<lparr>attempts := attempts job + 1, lastError := Some msg, status := Retrying\<rparr>]\<rparr>))"
    by (simp add: after_pipeline_def catch_block_def Let_def)
  have exec: "\<exists>s'. run cfg [QueueProcessingJob dA iA, QueueProcessingJob dB iB,
                   PipelineSettles 0 (env\<lparr>construct_processor := None, download_audio := Inl m\<rparr>)] (initial d) = Some s' \<and>
         workers s' = [InPipeline ((new_recording_job dB iB)\<lparr>status := Processing\<rparr>)] \<and>
         processingQueue s' =
           [(new_recording_job dA iA)
              \<lparr>attempts := 1, status := Retrying,
               lastError := Some (''Failed to download audio: '' @ m)\<rparr>]"
    by (simp add: queue_defs run_pipeline_def download_fails_pipeline Let_def)
  show ?thesis
    by (rule conjI[OF head[THEN conjunct1] conjI[OF head[THEN conjunct2] conjI[OF tail
          conjI[OF retry conjI[OF exec conjI[OF after_success_fifo after_handler_fifo]]]]]])
qed

theorem retrying_job_overtaken_witness:
  "attempts (new_recording_job caller_recording ''job_1'') + 1
     < maxAttempts (new_recording_job caller_recording ''job_1'') \<and>
   after_pipeline demo_config 0 (new_recording_job caller_recording ''job_1'')
       (Inl ''timeout'', empty_database, []) (initial empty_database) =
     suspend_at 0 (while_queue demo_config
       ((initial empty_database)
          \<lparr>db := empty_database, outbox := outbox (initial empty_database) @ [],
           processingQueue := processingQueue (initial empty_database) @
             [(new_recording_job caller_recording ''job_1'')
                \<lparr>attempts := attempts (new_recording_job caller_recording ''job_1'') + 1,
                 lastError := Some ''timeout'', status := Retrying\<rparr>]\<rparr>)) \<and>
   (\<exists>s'. overtaking_scenario = Some s' \<and>
         workers s' = [InPipeline ((new_recording_job second_recording ''job_2'')\<lparr>status := Processing\<rparr>)] \<and>
         processingQueue s' =
           [(new_recording_job caller_recording ''job_1'')
              \<lparr>attempts := 1, status := Retrying,
               lastError := Some (''Failed to download audio: '' @ ''timeout of 30000ms exceeded'')\<rparr>])"
proof -
  have h: "attempts (new_recording_job caller_recording ''job_1'') + 1
             < maxAttempts (new_recording_job caller_recording ''job_1'')"
    by (simp add: new_recording_job_def)
  note t = retrying_job_overtaken[where cfg = demo_config and s = "initial empty_database"
      and job = "new_recording_job caller_recording ''job_1''" and rest = "[]" and i = 0
      and msg = "''timeout''" and d' = empty_database and fx = "[]"
      and dA = caller_recording and iA = "''job_1''" and dB = second_recording
      and iB = "''job_2''" and env = all_succeed and m = "''timeout of 30000ms exceeded''"
      and d = empty_database]
  have a: "after_pipeline demo_config 0 (new_recording_job caller_recording ''job_1'')
       (Inl ''timeout'', empty_database, []) (initial empty_database) =
     suspend_at 0 (while_queue demo_config
       ((initial empty_database)
          \<lparr>db := empty_database, outbox := outbox (initial empty_database) @ [],
           processingQueue := processingQueue (initial empty_database) @
             [(new_recording_job caller_recording ''job_1'')
                \<lparr>attempts := attempts (new_recording_job caller_recording ''job_1'') + 1,
                 lastError := Some ''timeout'', status := Retrying\<rparr>]\<rparr>))"
    by (rule mp[OF t[THEN conjunct2, THEN conjunct2, THEN conjunct2, THEN conjunct1] h])
  have e: "\<exists>s'. overtaking_scenario = Some s' \<and>
         workers s' = [InPipeline ((new_recording_job second_recording ''job_2'')\<lparr>status := Processing\<rparr>)] \<and>
         processingQueue s' =
           [(new_recording_job caller_recording ''job_1'')
              \<lparr>attempts := 1, status := Retrying,
               lastError := Some (''Failed to download audio: '' @ ''timeout of 30000ms exceeded'')\<rparr>]"
    unfolding overtaking_scenario_def
    by (rule t[THEN conjunct2, THEN conjunct2, THEN conjunct2, THEN conjunct2, THEN conjunct1])
  show ?thesis by (rule conjI[OF h conjI[OF a e]])
qed

section \<open>Facts about the failure handler\<close>

lemmas handler_defs = handleJobFailure_def update_sessions_failed_def send_apology_def
  sendSMS_def emit_to_user_def

text \<open>
  C5 as stated: for every job whose counter reaches its maximum the handler marks the
  session failed, notifies the user's channel and attempts an apology message. For a
  regeneration job the handler leaves the sessions table as it is and calls no SMS client:
  only the socket event goes out.
\<close>

theorem failure_handler_counterexample:
  "handleJobFailure demo_config handler_ok failed_regeneration_job session_database =
     Inr (session_database,
          [Emit ''user_u1'' ''processing_failed''
             [(''jobId'', JStr ''regen_1''), (''sessionId'', JStr ''S1''),
              (''error'', JStr ''Session not found'')]])"
  by (simp add: handler_defs failed_regeneration_job_def new_regeneration_job_def
      demo_config_def handler_ok_def or_else_def present_def opt_field_def Let_def)

text \<open>
  C5, amended. The failure handler never throws. It issues the \<open>UPDATE\<close> that marks the
  sessions of (callSid, userId) failed only for a job of type \<open>process_recording\<close>, and an
  exception of that \<open>UPDATE\<close> is dropped; it emits \<open>processing_failed\<close> with the job's last
  error to the user's room when the socket server is there and the job has a user id; it
  calls the SMS client with the apology only when the job has a phone number (a
  regeneration job has none), the client can be built and a sender number is configured.
\<close>

theorem failure_handler_effects:
  "handleJobFailure cfg henv job d =
     Inr ((if jtype job = process_recording \<and> update_failed henv = None
           then mark_failed (callSid job) (userId job) d else d),
          emit_to_user cfg (userId job) ''processing_failed''
            ([(''jobId'', JStr (job_id job))]
             @ opt_field ''sessionId'' (or_else (sessionId job) (callSid job))
             @ opt_field ''error'' (lastError job))
          @ (case phoneNumber job of
               None \<Rightarrow> []
             | Some p \<Rightarrow>
                 if p \<noteq> [] \<and> twilio_client henv = None \<and> sms_configured cfg
                 then [SendSMS p apology] else []))"
  by (simp add: handleJobFailure_def update_sessions_failed_def send_apology_def sendSMS_def
      Let_def split: option.splits)

theorem failure_handler_effects_witness:
  "handleJobFailure demo_config handler_ok failed_recording_job session_database =
     Inr (empty_database\<lparr>sessions :=
            [\<lparr>session_id = ''S1'', session_user_id = Some ''u1'',
              session_call_sid = Some (JStr ''CA1''), processing_status = ''failed''\<rparr>]\<rparr>,
          [Emit ''user_u1'' ''processing_failed''
             [(''jobId'', JStr ''job_1''), (''sessionId'', JStr ''CA1''),
              (''error'', JStr ''Failed to download audio: timeout of 30000ms exceeded'')],
           SendSMS ''+15550123'' apology])"
  unfolding failure_handler_effects
  by (simp add: failed_recording_job_def new_recording_job_def caller_recording_def
      demo_config_def handler_ok_def session_database_def empty_database_def mark_failed_def
      sql_eq_def set_status_def emit_to_user_def or_else_def present_def opt_field_def
      sms_configured_def)

section \<open>Facts about the webhooks and the authenticator\<close>

text \<open>
  C6. In any mode other than development (production among them), a request whose
  signature the provider library rejects for (token, signature header, \<open>https://\<close> host and
  original URL, body) is answered 403 by the middleware; the handler behind it does not
  run: the service state is unchanged and no call goes to the call log, the authenticator
  or the queue. The middleware lets a request through exactly in development mode or when
  the signature is valid.
\<close>

theorem invalid_signature_rejected:
  "(NODE_ENV cfg \<noteq> Some ''development'' \<and>
    \<not> validateRequest env (twilio_authToken cfg) (signature req) (request_url req) (body req) \<longrightarrow>
      webhook cfg env r req s =
        (\<lparr>code = 403, content = Text ''Invalid Twilio signature''\<rparr>, s, [])) \<and>
   ((validateTwilioSignature cfg env req = None) =
      (NODE_ENV cfg = Some ''development'' \<or>
       validateRequest env (twilio_authToken cfg) (signature req) (request_url req) (body req)))"
  by (simp add: webhook_def validateTwilioSignature_def)

theorem invalid_signature_rejected_witness:
  "NODE_ENV demo_config \<noteq> Some ''development'' \<and>
   \<not> validateRequest rejecting_env (twilio_authToken demo_config) (signature pin_request)
        (request_url pin_request) (body pin_request) \<and>
   webhook demo_config rejecting_env Authenticate pin_request (initial registered_database) =
     (\<lparr>code = 403, content = Text ''Invalid Twilio signature''\<rparr>, initial registered_database, [])"
proof -
  have h: "NODE_ENV demo_config \<noteq> Some ''development'' \<and>
     \<not> validateRequest rejecting_env (twilio_authToken demo_config) (signature pin_request)
        (request_url pin_request) (body pin_request)"
    by (simp add: demo_config_def rejecting_env_def)
  note t = invalid_signature_rejected[where cfg = demo_config and env = rejecting_env
      and req = pin_request and r = Authenticate and s = "initial registered_database"]
  have w: "webhook demo_config rejecting_env Authenticate pin_request (initial registered_database) =
     (\<lparr>code = 403, content = Text ''Invalid Twilio signature''\<rparr>, initial registered_database, [])"
    by (rule mp[OF t[THEN conjunct1] h])
  show ?thesis using h w by simp
qed

lemmas http_defs = webhook_def validateTwilioSignature_def authenticate_def validatePIN_def
  active_users_with_pin_def touch_last_login_def logCall_def six_digits_def is_digit_def
  present_def xml_def record_verb_def

text \<open>
  C7 as stated: a second valid PIN for a CallSid that is already authenticated is rejected
  or ignored. The handler answers the second request like the first, with the recording
  instruction, and logs a second \<open>pin_success\<close>.
\<close>

theorem second_pin_counterexample:
  "fst (webhook demo_config accepting_env Authenticate pin_request
          (fst (snd (webhook demo_config accepting_env Authenticate pin_request
                       (initial registered_database))))) =
     xml [Say ''Welcome back! Start humming or singing your melody after the beep. You have 30 seconds. Go!'',
          record_verb ''u1'' (Some ''CA1''),
          Say ''Thank you for recording. We're processing your music now!''] \<and>
   map log_action
     (call_logs (db (fst (snd (webhook demo_config accepting_env Authenticate pin_request
          (fst (snd (webhook demo_config accepting_env Authenticate pin_request
                       (initial registered_database))))))))) =
     [''pin_success'', ''pin_success'']"
  by (simp add: http_defs demo_config_def accepting_env_def rejecting_env_def pin_request_def
      registered_database_def empty_database_def initial_def Let_def)

lemma validatePIN_users_only:
  "users d = users d' \<Longrightarrow> fst (validatePIN env d p) = fst (validatePIN env d' p) \<and>
     snd (snd (validatePIN env d p)) = snd (snd (validatePIN env d' p))"
  by (simp add: validatePIN_def active_users_with_pin_def split: option.splits list.splits)

lemma authenticate_response:
  "fst (authenticate env req s) =
     (if \<not> present (map_of (body req) ''Digits'') \<or>
         \<not> six_digits (case map_of (body req) ''Digits'' of None \<Rightarrow> [] | Some x \<Rightarrow> x)
      then xml [Say ''Invalid PIN format. Please call back and enter a 6-digit number.'']
      else (case fst (validatePIN (auth env) (db s) (map_of (body req) ''Digits'')) of
              Inl msg \<Rightarrow>
                xml [Say ''Sorry, there was a technical issue during authentication. Please try again.'']
            | Inr None \<Rightarrow> xml [Say ''Invalid PIN. Please check your PIN and try again.'']
            | Inr (Some user) \<Rightarrow>
                xml [Say ''Welcome back! Start humming or singing your melody after the beep. You have 30 seconds. Go!'',
                     record_verb (user_id user) (map_of (body req) ''CallSid''),
                     Say ''Thank you for recording. We're processing your music now!'']))"
  by (simp add: authenticate_def Let_def split: prod.splits sum.splits option.splits)

lemma authenticate_calls:
  "snd (snd (authenticate env req s)) =
     (if \<not> present (map_of (body req) ''Digits'') \<or>
         \<not> six_digits (case map_of (body req) ''Digits'' of None \<Rightarrow> [] | Some x \<Rightarrow> x)
      then [LogCall ''pin_failure'']
      else (case fst (validatePIN (auth env) (db s) (map_of (body req) ''Digits'')) of
              Inl msg \<Rightarrow> [ValidatePIN, LogCall ''pin_failure'']
            | Inr None \<Rightarrow> [ValidatePIN, LogCall ''pin_failure'']
            | Inr (Some user) \<Rightarrow> [ValidatePIN, LogCall ''pin_success'']))"
  by (simp add: authenticate_def Let_def split: prod.splits sum.splits option.splits)

lemma six_digits_present: "six_digits x \<Longrightarrow> present (Some x)"
  by (auto simp: six_digits_def present_def)

lemma authenticate_users:
  "users (db (fst (snd (authenticate env req s)))) =
     users (fst (snd (validatePIN (auth env) (db s) (map_of (body req) ''Digits''))))"
  by (simp add: authenticate_def validatePIN_def logCall_def six_digits_present Let_def
      split: prod.splits sum.splits option.splits list.splits)

lemma active_after_touch:
  "active_users_with_pin p (touch_last_login uid t d) =
     map (\<lambda>u. if user_id u = uid then u\<lparr>last_login := Some t\<rparr> else u)
       (active_users_with_pin p d)"
proof -
  have "filter (\<lambda>u. pin u = p \<and> is_active u = Some True)
          (map (\<lambda>u. if user_id u = uid then u\<lparr>last_login := Some t\<rparr> else u) xs) =
        map (\<lambda>u. if user_id u = uid then u\<lparr>last_login := Some t\<rparr> else u)
          (filter (\<lambda>u. pin u = p \<and> is_active u = Some True) xs)" for xs
    by (induction xs) auto
  then show ?thesis by (simp add: active_users_with_pin_def touch_last_login_def)
qed

lemma validatePIN_found:
  assumes "six_digits digits" "select_user_fails env = None" "update_login_fails env = None"
    and "active_users_with_pin digits d = user # others"
  shows "validatePIN env d (Some digits) =
           (Inr (Some user), touch_last_login (user_id user) (now env) d, [])"
  using assms by (simp add: validatePIN_def)

text \<open>
  C7, amended. The authenticate handler keeps no state per call: its answer and the calls
  it makes depend on the request and on the users table only. Whenever the digits are six
  digits that match an active user and the queries succeed, it answers with the recording
  instruction for that user and CallSid and logs \<open>pin_success\<close>; the same request handled
  again gets the same answer. The handlers do not enforce the order of a call's stages.
\<close>

theorem authenticate_stateless:
  "(users (db s) = users (db s') \<longrightarrow>
      fst (authenticate env req s) = fst (authenticate env req s') \<and>
      snd (snd (authenticate env req s)) = snd (snd (authenticate env req s'))) \<and>
   (map_of (body req) ''Digits'' = Some digits \<and> six_digits digits \<and>
    select_user_fails (auth env) = None \<and> update_login_fails (auth env) = None \<and>
    active_users_with_pin digits (db s) = user # others \<longrightarrow>
      fst (authenticate env req s) =
        xml [Say ''Welcome back! Start humming or singing your melody after the beep. You have 30 seconds. Go!'',
             record_verb (user_id user) (map_of (body req) ''CallSid''),
             Say ''Thank you for recording. We're processing your music now!''] \<and>
      snd (snd (authenticate env req s)) = [ValidatePIN, LogCall ''pin_success''] \<and>
      fst (authenticate env req (fst (snd (authenticate env req s)))) =
        fst (authenticate env req s))"
proof -
  have A: "users (db s) = users (db s') \<longrightarrow>
      fst (authenticate env req s) = fst (authenticate env req s') \<and>
      snd (snd (authenticate env req s)) = snd (snd (authenticate env req s'))"
  proof
    assume "users (db s) = users (db s')"
    from validatePIN_users_only[OF this, of "auth env" "map_of (body req) ''Digits''"]
    show "fst (authenticate env req s) = fst (authenticate env req s') \<and>
        snd (snd (authenticate env req s)) = snd (snd (authenticate env req s'))"
      by (simp add: authenticate_response authenticate_calls)
  qed
  have B: "map_of (body req) ''Digits'' = Some digits \<and> six_digits digits \<and>
    select_user_fails (auth env) = None \<and> update_login_fails (auth env) = None \<and>
    active_users_with_pin digits (db s) = user # others \<longrightarrow>
      fst (authenticate env req s) =
        xml [Say ''Welcome back! Start humming or singing your melody after the beep. You have 30 seconds. Go!'',
             record_verb (user_id user) (map_of (body req) ''CallSid''),
             Say ''Thank you for recording. We're processing your music now!''] \<and>
      snd (snd (authenticate env req s)) = [ValidatePIN, LogCall ''pin_success''] \<and>
      fst (authenticate env req (fst (snd (authenticate env req s)))) =
        fst (authenticate env req s)"
  proof
    assume a: "map_of (body req) ''Digits'' = Some digits \<and> six_digits digits \<and>
      select_user_fails (auth env) = None \<and> update_login_fails (auth env) = None \<and>
      active_users_with_pin digits (db s) = user # others"
    then have v: "validatePIN (auth env) (db s) (Some digits) =
             (Inr (Some user), touch_last_login (user_id user) (now (auth env)) (db s), [])"
      by (simp add: validatePIN_found)
    have six: "present (Some digits)" using a by (simp add: six_digits_present)
    have r1: "fst (authenticate env req s) =
          xml [Say ''Welcome back! Start humming or singing your melody after the beep. You have 30 seconds. Go!'',
               record_verb (user_id user) (map_of (body req) ''CallSid''),
               Say ''Thank you for recording. We're processing your music now!'']"
      using a v six by (simp add: authenticate_response)
    have r2: "snd (snd (authenticate env req s)) = [ValidatePIN, LogCall ''pin_success'']"
      using a v six by (simp add: authenticate_calls)
    let ?s1 = "fst (snd (authenticate env req s))"
    let ?f = "\<lambda>u. if user_id u = user_id user then u\<lparr>last_login := Some (now (auth env))\<rparr> else u"
    have "users (db ?s1) = users (touch_last_login (user_id user) (now (auth env)) (db s))"
      using a v by (simp add: authenticate_users)
    then have "active_users_with_pin digits (db ?s1) =
        active_users_with_pin digits (touch_last_login (user_id user) (now (auth env)) (db s))"
      by (simp add: active_users_with_pin_def)
    then have act: "active_users_with_pin digits (db ?s1) = ?f user # map ?f others"
      using a by (simp add: active_after_touch)
    have v2: "validatePIN (auth env) (db ?s1) (Some digits) =
        (Inr (Some (?f user)), touch_last_login (user_id (?f user)) (now (auth env)) (db ?s1), [])"
      using a act by (intro validatePIN_found) simp_all
    have "fst (authenticate env req ?s1) =
          xml [Say ''Welcome back! Start humming or singing your melody after the beep. You have 30 seconds. Go!'',
               record_verb (user_id (?f user)) (map_of (body req) ''CallSid''),
               Say ''Thank you for recording. We're processing your music now!'']"
      using a six by (simp add: authenticate_response v2)
    then have r3: "fst (authenticate env req ?s1) = fst (authenticate env req s)"
      by (simp add: r1)
    from r1 r2 r3 show "fst (authenticate env req s) =
        xml [Say ''Welcome back! Start humming or singing your melody after the beep. You have 30 seconds. Go!'',
             record_verb (user_id user) (map_of (body req) ''CallSid''),
             Say ''Thank you for recording. We're processing your music now!''] \<and>
      snd (snd (authenticate env req s)) = [ValidatePIN, LogCall ''pin_success''] \<and>
      fst (authenticate env req (fst (snd (authenticate env req s)))) =
        fst (authenticate env req s)"
      by (intro conjI)
  qed
  show ?thesis by (rule conjI[OF A B])
qed

theorem authenticate_stateless_witness:
  "map_of (body pin_request) ''Digits'' = Some ''123456'' \<and> six_digits ''123456'' \<and>
   select_user_fails (auth accepting_env) = None \<and>
   update_login_fails (auth accepting_env) = None \<and>
   active_users_with_pin ''123456'' (db (initial registered_database)) =
     hd (users registered_database) # [] \<and>
   fst (authenticate accepting_env pin_request
         (fst (snd (authenticate accepting_env pin_request (initial registered_database))))) =
     fst (authenticate accepting_env pin_request (initial registered_database)) \<and>
   fst (authenticate accepting_env pin_request (initial registered_database)) =
     xml [Say ''Welcome back! Start humming or singing your melody after the beep. You have 30 seconds. Go!'',
          record_verb (user_id (hd (users registered_database))) (map_of (body pin_request) ''CallSid''),
          Say ''Thank you for recording. We're processing your music now!'']"
proof -
  have h: "map_of (body pin_request) ''Digits'' = Some ''123456'' \<and> six_digits ''123456'' \<and>
    select_user_fails (auth accepting_env) = None \<and>
    update_login_fails (auth accepting_env) = None \<and>
    active_users_with_pin ''123456'' (db (initial registered_database)) =
      hd (users registered_database) # []"
    by (simp add: pin_request_def six_digits_def is_digit_def accepting_env_def
        rejecting_env_def active_users_with_pin_def initial_def registered_database_def
        empty_database_def)
  note t = authenticate_stateless[where env = accepting_env and req = pin_request
      and s = "initial registered_database" and s' = "initial registered_database"
      and digits = "''123456''" and user = "hd (users registered_database)" and others = "[]"]
  note c = mp[OF t[THEN conjunct2] h]
  show ?thesis using h c by simp
qed

lemma no_active_user:
  assumes "distinct (map pin (users d))" "u \<in> set (users d)" "pin u = p"
    and "is_active u = Some False"
  shows "active_users_with_pin p d = []"
proof -
  have inj: "inj_on pin (set (users d))"
    using assms(1) by (simp add: distinct_map)
  have "\<not> (pin v = p \<and> is_active v = Some True)" if "v \<in> set (users d)" for v
  proof
    assume "pin v = p \<and> is_active v = Some True"
    then have "v = u" using inj that assms(2,3) by (auto dest: inj_onD)
    with \<open>pin v = p \<and> is_active v = Some True\<close> assms(4) show False by simp
  qed
  then show ?thesis by (simp add: active_users_with_pin_def filter_empty_conv)
qed

text \<open>
  C10. For a six-digit PIN that belongs to a user whose active flag is false (PINs are
  unique), \<open>validatePIN\<close> gives the result and the log lines it gives when no user has that
  PIN, leaves the database as it is (no last-login update), and returns \<open>null\<close> with one
  failed-attempt line when the query succeeds; the authenticate handler then answers with
  the rejection and never with the recording instruction.
\<close>

theorem inactive_pin_rejected:
  assumes "six_digits p" "distinct (map pin (users d))" "u \<in> set (users d)" "pin u = p"
    and "is_active u = Some False"
  shows "fst (validatePIN env d (Some p)) =
           fst (validatePIN env (d\<lparr>users := filter (\<lambda>v. pin v \<noteq> p) (users d)\<rparr>) (Some p)) \<and>
         snd (snd (validatePIN env d (Some p))) =
           snd (snd (validatePIN env (d\<lparr>users := filter (\<lambda>v. pin v \<noteq> p) (users d)\<rparr>) (Some p))) \<and>
         fst (snd (validatePIN env d (Some p))) = d \<and>
         (select_user_fails env = None \<longrightarrow>
            validatePIN env d (Some p) = (Inr None, d, [''Failed PIN attempt:''])) \<and>
         (map_of (body req) ''Digits'' = Some p \<longrightarrow>
            fst (authenticate henv req (s\<lparr>db := d\<rparr>)) =
              xml [Say (if select_user_fails (auth henv) = None
                        then ''Invalid PIN. Please check your PIN and try again.''
                        else ''Sorry, there was a technical issue during authentication. Please try again.'')])"
proof -
  have none: "active_users_with_pin p d = []"
    using assms(2-5) by (rule no_active_user)
  have gone: "active_users_with_pin p (d\<lparr>users := filter (\<lambda>v. pin v \<noteq> p) (users d)\<rparr>) = []"
    by (simp add: active_users_with_pin_def filter_empty_conv)
  have v: "validatePIN e d (Some p) =
      (case select_user_fails e of Some msg \<Rightarrow> (Inl msg, d, [])
                                 | None \<Rightarrow> (Inr None, d, [''Failed PIN attempt:'']))" for e
    using assms(1) none by (simp add: validatePIN_def split: option.splits)
  have v': "validatePIN env (d\<lparr>users := filter (\<lambda>v. pin v \<noteq> p) (users d)\<rparr>) (Some p) =
      (case select_user_fails env of
         Some msg \<Rightarrow> (Inl msg, d\<lparr>users := filter (\<lambda>v. pin v \<noteq> p) (users d)\<rparr>, [])
       | None \<Rightarrow> (Inr None, d\<lparr>users := filter (\<lambda>v. pin v \<noteq> p) (users d)\<rparr>,
                    [''Failed PIN attempt:'']))"
    using assms(1) gone by (simp add: validatePIN_def split: option.splits)
  have p: "present (Some p)" using assms(1) by (rule six_digits_present)
  have a: "map_of (body req) ''Digits'' = Some p \<longrightarrow>
            fst (authenticate henv req (s\<lparr>db := d\<rparr>)) =
              xml [Say (if select_user_fails (auth henv) = None
                        then ''Invalid PIN. Please check your PIN and try again.''
                        else ''Sorry, there was a technical issue during authentication. Please try again.'')]"
    using assms(1) p by (simp add: authenticate_response v split: option.splits)
  have 1: "fst (validatePIN env d (Some p)) =
           fst (validatePIN env (d\<lparr>users := filter (\<lambda>v. pin v \<noteq> p) (users d)\<rparr>) (Some p))"
    by (simp add: v v' split: option.splits)
  have 2: "snd (snd (validatePIN env d (Some p))) =
           snd (snd (validatePIN env (d\<lparr>users := filter (\<lambda>v. pin v \<noteq> p) (users d)\<rparr>) (Some p)))"
    by (simp add: v v' split: option.splits)
  have 3: "fst (snd (validatePIN env d (Some p))) = d"
    by (simp add: v split: option.splits)
  have 4: "select_user_fails env = None \<longrightarrow>
            validatePIN env d (Some p) = (Inr None, d, [''Failed PIN attempt:''])"
    by (simp add: v)
  from 1 2 3 4 a show ?thesis by (intro conjI)
qed

theorem inactive_pin_rejected_witness:
  "six_digits ''123456'' \<and> distinct (map pin (users inactive_database)) \<and>
   hd (users inactive_database) \<in> set (users inactive_database) \<and>
   pin (hd (users inactive_database)) = ''123456'' \<and>
   is_active (hd (users inactive_database)) = Some False \<and>
   validatePIN (auth accepting_env) inactive_database (Some ''123456'') =
     (Inr None, inactive_database, [''Failed PIN attempt:'']) \<and>
   fst (authenticate accepting_env pin_request ((initial empty_database)\<lparr>db := inactive_database\<rparr>)) =
     xml [Say ''Invalid PIN. Please check your PIN and try again.'']"
proof -
  have h1: "six_digits ''123456''" by (simp add: six_digits_def is_digit_def)
  have h2: "distinct (map pin (users inactive_database))"
    by (simp add: inactive_database_def empty_database_def)
  have h3: "hd (users inactive_database) \<in> set (users inactive_database)"
    by (simp add: inactive_database_def empty_database_def)
  have h4: "pin (hd (users inactive_database)) = ''123456''"
    by (simp add: inactive_database_def empty_database_def)
  have h5: "is_active (hd (users inactive_database)) = Some False"
    by (simp add: inactive_database_def empty_database_def)
  note t = inactive_pin_rejected[OF h1 h2 h3 h4 h5, where env = "auth accepting_env"
      and henv = accepting_env and req = pin_request and s = "initial empty_database"]
  have s: "select_user_fails (auth accepting_env) = None"
    by (simp add: accepting_env_def rejecting_env_def)
  have b: "map_of (body pin_request) ''Digits'' = Some ''123456''"
    by (simp add: pin_request_def)
  have c4: "validatePIN (auth accepting_env) inactive_database (Some ''123456'') =
     (Inr None, inactive_database, [''Failed PIN attempt:''])"
    by (rule mp[OF t[THEN conjunct2, THEN conjunct2, THEN conjunct2, THEN conjunct1] s])
  have c5: "fst (authenticate accepting_env pin_request ((initial empty_database)\<lparr>db := inactive_database\<rparr>)) =
     xml [Say ''Invalid PIN. Please check your PIN and try again.'']"
    using mp[OF t[THEN conjunct2, THEN conjunct2, THEN conjunct2, THEN conjunct2] b] s
    by simp
  from h1 h2 h3 h4 h5 c4 c5 show ?thesis by (intro conjI)
qed

section \<open>Facts about the pipeline and the generator\<close>


lemma processRecording_succeeds:
  assumes "download_audio env = Inr f" "file_size f \<le> mx" "1000 \<le> file_size f"
    and "file_access env = None" "whisper env = Inr tr" "insert_session env = Inr sid"
    and "generate_audio_files env sid
           (generateMusic (agents env) (analyzeMusicalElements env) tr) = Inr files"
    and "update_completed env = None" "insert_tracks env = None" "sms_service env = None"
  shows "processRecording mx env d uid url cs ph =
     (Inr \<lparr>result_sessionId = sid, result_success = True, result_files = files\<rparr>,
      add_tracks sid files (mark_completed sid
        (d\<lparr>sessions := sessions d @
            [\<lparr>session_id = sid, session_user_id = uid,
              session_call_sid =
                bound_value (map_of (sessionData cs url f tr (analyzeMusicalElements env)) ''callSid''),
              processing_status = ''processing''\<rparr>]\<rparr>)),
      (case ph of None \<Rightarrow> [] | Some p \<Rightarrow> if p = [] then [] else [DownloadLinksSMS p sid]))"
  using assms
  by (simp add: processRecording_def downloadAudio_def validateAudioFile_def
      transcribe_and_record_def transcribeAudio_def createSession_def generate_and_save_def
      saveResults_def sendSMSNotification_def notify_user_def Let_def split: option.splits)

text \<open>
  An exception of loading or constructing the SMS service is raised before the \<open>try\<close> of
  \<open>sendSMSNotification\<close> and leaves the pipeline; the whole-chain fallback of the generator
  is the one place that writes \<open>source = "fallback"\<close>.
\<close>

lemma sms_service_failure_propagates:
  assumes "download_audio env = Inr f" "file_size f \<le> mx" "1000 \<le> file_size f"
    and "file_access env = None" "whisper env = Inr tr" "insert_session env = Inr sid"
    and "generate_audio_files env sid
           (generateMusic (agents env) (analyzeMusicalElements env) tr) = Inr files"
    and "update_completed env = None" "insert_tracks env = None"
    and "sms_service env = Some msg" "ph = Some p" "p \<noteq> []"
  shows "fst (processRecording mx env d uid url cs ph) = Inl msg"
  using assms
  by (simp add: processRecording_def downloadAudio_def validateAudioFile_def
      transcribe_and_record_def transcribeAudio_def createSession_def generate_and_save_def
      saveResults_def sendSMSNotification_def notify_user_def Let_def)

lemma processRecording_sms_service_fails:
  assumes "download_audio env = Inr f" "file_size f \<le> mx" "1000 \<le> file_size f"
    and "file_access env = None" "whisper env = Inr tr" "insert_session env = Inr sid"
    and "generate_audio_files env sid
           (generateMusic (agents env) (analyzeMusicalElements env) tr) = Inr files"
    and "update_completed env = None" "insert_tracks env = None"
    and "sms_service env = Some msg" "p \<noteq> []"
  shows "processRecording mx env d uid url cs (Some p) =
     (Inl msg,
      add_tracks sid files (mark_completed sid
        (d\<lparr>sessions := sessions d @
            [\<lparr>session_id = sid, session_user_id = uid,
              session_call_sid =
                bound_value (map_of (sessionData cs url f tr (analyzeMusicalElements env)) ''callSid''),
              processing_status = ''processing''\<rparr>]\<rparr>)),
      [])"
  using assms
  by (simp add: processRecording_def downloadAudio_def validateAudioFile_def
      transcribe_and_record_def transcribeAudio_def createSession_def generate_and_save_def
      saveResults_def sendSMSNotification_def notify_user_def Let_def)

lemma map_of_set_prop:
  "map_of (set_prop kvs k v) k' = (if k' = k then Some v else map_of kvs k')"
  by (induction kvs) auto

lemma whole_chain_fallback_marked:
  "generateMusic_try ag ma tr = Inl e \<Longrightarrow>
   get_path (generateMusic ag ma tr) [''analysis'', ''source''] = Some (JStr ''fallback'')"
  by (simp add: generateMusic_def getFallbackMusicData_def get_prop_def map_of_set_prop)

lemma session_statuses_after_success:
  "map processing_status (sessions (add_tracks sid files (mark_completed sid
        (d\<lparr>sessions := sessions d @
            [\<lparr>session_id = sid, session_user_id = uid, session_call_sid = c,
              processing_status = ''processing''\<rparr>]\<rparr>)))) =
   map (\<lambda>r. if session_id r = sid then ''completed'' else processing_status r) (sessions d)
     @ [''completed'']"
  by (simp add: add_tracks_def mark_completed_def set_status_def)

text \<open>
  The part of the notification stage that is guarded: if stages 1 to 8 succeed and the
  call that sends the download links to the user's phone throws (the SMS service object
  being there to call), the pipeline still returns its success result, the job ends with
  status \<open>completed\<close> and zero counted attempts, it is not requeued and the loop ends, and
  the session the run created has status \<open>completed\<close>.
\<close>

theorem notify_failure_swallowed:
  assumes "download_audio env = Inr f" "file_size f \<le> audio_maxSize cfg" "1000 \<le> file_size f"
    and "file_access env = None" "whisper env = Inr tr" "insert_session env = Inr sid"
    and "generate_audio_files env sid
           (generateMusic (agents env) (analyzeMusicalElements env) tr) = Inr files"
    and "update_completed env = None" "insert_tracks env = None"
    and "sms_service env = None" "construct_processor env = None"
    and "send_download_links env = Some msg"
  shows "fst (processRecording (audio_maxSize cfg) env d (d_userId jd) (d_recordingUrl jd)
               (d_callSid jd) (d_phoneNumber jd)) =
           Inr \<lparr>result_sessionId = sid, result_success = True, result_files = files\<rparr> \<and>
         (\<exists>s. run cfg [QueueProcessingJob jd ident, PipelineSettles 0 env] (initial d) = Some s \<and>
              map job_id (settled s) = [ident] \<and> map status (settled s) = [Completed] \<and>
              map attempts (settled s) = [0] \<and> processingQueue s = [] \<and> workers s = [] \<and>
              map processing_status (sessions (db s)) =
                map (\<lambda>r. if session_id r = sid then ''completed'' else processing_status r)
                  (sessions d) @ [''completed''])"
proof -
  note p = processRecording_succeeds[OF assms(1-10), of d "d_userId jd" "d_recordingUrl jd"
      "d_callSid jd" "d_phoneNumber jd"]
  note cp = assms(11)
  have r: "fst (run_pipeline cfg env d ((new_recording_job jd ident)\<lparr>status := Processing\<rparr>)) =
      Inr \<lparr>result_sessionId = sid, result_success = True, result_files = files\<rparr>"
    by (simp add: run_pipeline_def new_recording_job_def p cp)
  have d: "map processing_status (sessions (fst (snd (run_pipeline cfg env d
                      ((new_recording_job jd ident)\<lparr>status := Processing\<rparr>))))) =
      map (\<lambda>r. if session_id r = sid then ''completed'' else processing_status r)
                  (sessions d) @ [''completed'']"
    by (simp add: run_pipeline_def new_recording_job_def p cp session_statuses_after_success)
  have "\<exists>s. run cfg [QueueProcessingJob jd ident, PipelineSettles 0 env] (initial d) = Some s \<and>
              map job_id (settled s) = [ident] \<and> map status (settled s) = [Completed] \<and>
              map attempts (settled s) = [0] \<and> processingQueue s = [] \<and> workers s = [] \<and>
              map processing_status (sessions (db s)) =
                map (\<lambda>r. if session_id r = sid then ''completed'' else processing_status r)
                  (sessions d) @ [''completed'']"
    using r d by (simp add: queue_defs Let_def)
  moreover have "fst (processRecording (audio_maxSize cfg) env d (d_userId jd) (d_recordingUrl jd)
               (d_callSid jd) (d_phoneNumber jd)) =
           Inr \<lparr>result_sessionId = sid, result_success = True, result_files = files\<rparr>"
    by (simp add: p)
  ultimately show ?thesis by (intro conjI)
qed

theorem notify_failure_swallowed_witness:
  "fst (processRecording (audio_maxSize demo_config) sms_fails empty_database
          (d_userId caller_recording) (d_recordingUrl caller_recording)
          (d_callSid caller_recording) (d_phoneNumber caller_recording)) =
     Inr \<lparr>result_sessionId = ''S1'', result_success = True, result_files = demo_files\<rparr> \<and>
   (\<exists>s. sms_scenario = Some s \<and>
        map job_id (settled s) = [''job_1''] \<and> map status (settled s) = [Completed] \<and>
        map attempts (settled s) = [0] \<and> processingQueue s = [] \<and> workers s = [] \<and>
        map processing_status (sessions (db s)) =
          map (\<lambda>r. if session_id r = ''S1'' then ''completed'' else processing_status r)
            (sessions empty_database) @ [''completed''])"
proof -
  have h1: "download_audio sms_fails =
      Inr \<lparr>file_path = ''uploads/recording_1.wav'', file_size = 48000,
           file_name = ''recording_1.wav''\<rparr>"
    by (simp add: sms_fails_def all_succeed_def)
  have h2: "file_size \<lparr>file_path = ''uploads/recording_1.wav'', file_size = 48000,
           file_name = ''recording_1.wav''\<rparr> \<le> audio_maxSize demo_config"
    by (simp add: demo_config_def)
  have h3: "1000 \<le> file_size \<lparr>file_path = ''uploads/recording_1.wav'', file_size = 48000,
           file_name = ''recording_1.wav''\<rparr>"
    by simp
  have h4: "file_access sms_fails = None" by (simp add: sms_fails_def all_succeed_def)
  have h5: "whisper sms_fails = Inr demo_transcription"
    by (simp add: sms_fails_def all_succeed_def)
  have h6: "insert_session sms_fails = Inr ''S1''" by (simp add: sms_fails_def all_succeed_def)
  have h7: "generate_audio_files sms_fails ''S1''
      (generateMusic (agents sms_fails) (analyzeMusicalElements sms_fails) demo_transcription) =
      Inr demo_files"
    by (simp add: sms_fails_def all_succeed_def)
  have h8: "update_completed sms_fails = None" by (simp add: sms_fails_def all_succeed_def)
  have h9: "insert_tracks sms_fails = None" by (simp add: sms_fails_def all_succeed_def)
  have h10: "sms_service sms_fails = None" by (simp add: sms_fails_def all_succeed_def)
  have h11: "construct_processor sms_fails = None" by (simp add: sms_fails_def all_succeed_def)
  have h12: "send_download_links sms_fails = Some ''The number is unverified''"
    by (simp add: sms_fails_def)
  show ?thesis
    unfolding sms_scenario_def
    by (rule notify_failure_swallowed[OF h1 h2 h3 h4 h5 h6 h7 h8 h9 h10 h11 h12])
qed

lemma sms_service_scenario_end:
  "\<exists>s. sms_service_scenario = Some s \<and>
       map job_id (settled s) = [''job_1''] \<and> map status (settled s) = [Failed] \<and>
       map attempts (settled s) = [3] \<and>
       map lastError (settled s) = [Some ''username is required''] \<and>
       processingQueue s = [] \<and> workers s = [] \<and>
       map processing_status (sessions (db s)) = [''failed'', ''failed'', ''failed'']"
  unfolding sms_service_scenario_def
  by (simp add: queue_defs run_pipeline_def pipeline_defs demo_defs sms_service_fails_def
      handler_defs handler_ok_def mark_failed_def sql_eq_def bound_value_def sessionData_def
      opt_str_def spread_def or_else_def present_def opt_field_def sms_configured_def Let_def)

text \<open>
  C9. The specification has an exception of the notification stage, after generation and
  persistence have succeeded, leave the job completed and the session \<open>completed\<close>. The
  code keeps this for an exception of the call that sends the links
  (\<open>notify_failure_swallowed\<close>), as its comment says it should for any SMS failure. It
  does not keep it for an exception raised while the stage loads and constructs the SMS
  service, which happens before its \<open>try\<close>: the stage then throws, the pipeline throws
  although the session is already marked \<open>completed\<close>, and the job is counted as failed
  and run again. After three such runs the job is failed for good and the failure handler
  marks its sessions \<open>failed\<close>.
\<close>

theorem notify_stage_exception_fails_job:
  assumes "download_audio env = Inr f" "file_size f \<le> audio_maxSize cfg" "1000 \<le> file_size f"
    and "file_access env = None" "whisper env = Inr tr" "insert_session env = Inr sid"
    and "generate_audio_files env sid
           (generateMusic (agents env) (analyzeMusicalElements env) tr) = Inr files"
    and "update_completed env = None" "insert_tracks env = None"
    and "sms_service env = Some msg" "p \<noteq> []" "d_phoneNumber jd = Some p"
    and "construct_processor env = None"
  shows "fst (processRecording (audio_maxSize cfg) env d (d_userId jd) (d_recordingUrl jd)
               (d_callSid jd) (d_phoneNumber jd)) = Inl msg \<and>
         (\<exists>s. run cfg [QueueProcessingJob jd ident, PipelineSettles 0 env] (initial d) = Some s \<and>
              settled s = [] \<and> processingQueue s = [] \<and>
              map job_id (map worker_job (workers s)) = [ident] \<and>
              map status (map worker_job (workers s)) = [Processing] \<and>
              map attempts (map worker_job (workers s)) = [1] \<and>
              map lastError (map worker_job (workers s)) = [Some msg] \<and>
              map processing_status (sessions (db s)) =
                map (\<lambda>r. if session_id r = sid then ''completed'' else processing_status r)
                  (sessions d) @ [''completed''])"
proof -
  note p = processRecording_sms_service_fails[OF assms(1-11), of d "d_userId jd"
      "d_recordingUrl jd" "d_callSid jd"]
  have r: "run_pipeline cfg env d ((new_recording_job jd ident)\<lparr>status := Processing\<rparr>) =
      (Inl msg,
       add_tracks sid files (mark_completed sid
        (d\<lparr>sessions := sessions d @
            [\<lparr>session_id = sid, session_user_id = d_userId jd,
              session_call_sid =
                bound_value (map_of (sessionData (d_callSid jd) (d_recordingUrl jd) f tr
                   (analyzeMusicalElements env)) ''callSid''),
              processing_status = ''processing''\<rparr>]\<rparr>)),
       [])"
    by (simp add: run_pipeline_def new_recording_job_def p assms(12,13))
  have 1: "fst (processRecording (audio_maxSize cfg) env d (d_userId jd) (d_recordingUrl jd)
               (d_callSid jd) (d_phoneNumber jd)) = Inl msg"
    by (simp add: p assms(12))
  have 2: "\<exists>s. run cfg [QueueProcessingJob jd ident, PipelineSettles 0 env] (initial d) = Some s \<and>
              settled s = [] \<and> processingQueue s = [] \<and>
              map job_id (map worker_job (workers s)) = [ident] \<and>
              map status (map worker_job (workers s)) = [Processing] \<and>
              map attempts (map worker_job (workers s)) = [1] \<and>
              map lastError (map worker_job (workers s)) = [Some msg] \<and>
              map processing_status (sessions (db s)) =
                map (\<lambda>r. if session_id r = sid then ''completed'' else processing_status r)
                  (sessions d) @ [''completed'']"
    using r by (simp add: queue_defs worker_job_def session_statuses_after_success Let_def)
  show ?thesis by (rule conjI[OF 1 2])
qed

theorem notify_stage_exception_fails_job_witness:
  "fst (processRecording (audio_maxSize demo_config) sms_service_fails empty_database
          (d_userId caller_recording) (d_recordingUrl caller_recording)
          (d_callSid caller_recording) (d_phoneNumber caller_recording)) =
     Inl ''username is required'' \<and>
   (\<exists>s. run demo_config
          [QueueProcessingJob caller_recording ''job_1'', PipelineSettles 0 sms_service_fails]
          (initial empty_database) = Some s \<and>
        settled s = [] \<and> processingQueue s = [] \<and>
        map job_id (map worker_job (workers s)) = [''job_1''] \<and>
        map status (map worker_job (workers s)) = [Processing] \<and>
        map attempts (map worker_job (workers s)) = [1] \<and>
        map lastError (map worker_job (workers s)) = [Some ''username is required''] \<and>
        map processing_status (sessions (db s)) =
          map (\<lambda>r. if session_id r = ''S1'' then ''completed'' else processing_status r)
            (sessions empty_database) @ [''completed'']) \<and>
   (\<exists>s. sms_service_scenario = Some s \<and>
        map job_id (settled s) = [''job_1''] \<and> map status (settled s) = [Failed] \<and>
        map attempts (settled s) = [3] \<and>
        map lastError (settled s) = [Some ''username is required''] \<and>
        processingQueue s = [] \<and> workers s = [] \<and>
        map processing_status (sessions (db s)) = [''failed'', ''failed'', ''failed''])"
proof -
  have h1: "download_audio sms_service_fails =
      Inr \<lparr>file_path = ''uploads/recording_1.wav'', file_size = 48000,
           file_name = ''recording_1.wav''\<rparr>"
    by (simp add: sms_service_fails_def all_succeed_def)
  have h2: "file_size \<lparr>file_path = ''uploads/recording_1.wav'', file_size = 48000,
           file_name = ''recording_1.wav''\<rparr> \<le> audio_maxSize demo_config"
    by (simp add: demo_config_def)
  have h3: "1000 \<le> file_size \<lparr>file_path = ''uploads/recording_1.wav'', file_size = 48000,
           file_name = ''recording_1.wav''\<rparr>"
    by simp
  have h4: "file_access sms_service_fails = None"
    by (simp add: sms_service_fails_def all_succeed_def)
  have h5: "whisper sms_service_fails = Inr demo_transcription"
    by (simp add: sms_service_fails_def all_succeed_def)
  have h6: "insert_session sms_service_fails = Inr ''S1''"
    by (simp add: sms_service_fails_def all_succeed_def)
  have h7: "generate_audio_files sms_service_fails ''S1''
      (generateMusic (agents sms_service_fails) (analyzeMusicalElements sms_service_fails)
         demo_transcription) = Inr demo_files"
    by (simp add: sms_service_fails_def all_succeed_def)
  have h8: "update_completed sms_service_fails = None"
    by (simp add: sms_service_fails_def all_succeed_def)
  have h9: "insert_tracks sms_service_fails = None"
    by (simp add: sms_service_fails_def all_succeed_def)
  have h10: "sms_service sms_service_fails = Some ''username is required''"
    by (simp add: sms_service_fails_def)
  have h11: "''+15550123'' \<noteq> []" by simp
  have h12: "d_phoneNumber caller_recording = Some ''+15550123''"
    by (simp add: caller_recording_def)
  have h13: "construct_processor sms_service_fails = None"
    by (simp add: sms_service_fails_def all_succeed_def)
  note t = notify_stage_exception_fails_job[OF h1 h2 h3 h4 h5 h6 h7 h8 h9 h10 h11 h12 h13,
      where ident = "''job_1''" and d = empty_database]
  show ?thesis
    by (rule conjI[OF t[THEN conjunct1] conjI[OF t[THEN conjunct2] sms_service_scenario_end]])
qed




end
